theory Spec2Isabelle
  imports Main "HOL-Library.Sublist"
begin

section \<open>Storage drivers of media-sync (drivers.py)\<close>

text \<open>
  The drivers talk to four external systems: the local file system, an S3-compatible
  object store (the minio client), Google Drive (the googleapiclient service) and Azure
  Blob Storage. None of them is part of the program, so each is a record of functions
  over an abstract world \<open>'w\<close>: a call takes the world and returns the value or the
  exception it raised, with the world after it. The driver code is translated on top of
  these records. Every call a driver issues is appended to a log, so that statements
  about which calls are issued (and how many) can be made.

  Python strings are modelled as \<open>string\<close>; \<open>startswith\<close> is \<open>prefix\<close>.
\<close>

subsection \<open>Python values, exceptions and the call log\<close>

datatype DriverType = LOCAL | MINIO | GOOGLE_DRIVE | AZURE

text \<open>The values \<open>config.driver\<close> may hold and an \<open>__eq__\<close> may return.\<close>

datatype py_value = PyStr string | PyEnum DriverType | PyBool bool | PyNone

text \<open>
  The exceptions (subclasses of \<open>Exception\<close>) the modelled calls may raise, each with
  the text \<open>str(e)\<close> gives; an \<open>S3Error\<close> carries its \<open>code\<close> first.
  \<open>shutil.SameFileError\<close> is a subclass of \<open>OSError\<close>. \<open>OtherException\<close> is any
  exception class that none of the \<open>except\<close> clauses of the program names
  (\<open>ValueError\<close>, \<open>TypeError\<close>, googleapiclient's \<open>HttpError\<close>, urllib3's errors, ...).
\<close>

datatype py_exn =
    DriverError string
  | S3Error string string
  | AzureError string
  | OSError string
  | SameFileError string
  | OtherException string

fun exn_str :: "py_exn \<Rightarrow> string" where
  "exn_str (DriverError m) = m"
| "exn_str (S3Error c m) = m"
| "exn_str (AzureError m) = m"
| "exn_str (OSError m) = m"
| "exn_str (SameFileError m) = m"
| "exn_str (OtherException m) = m"

fun is_OSError :: "py_exn \<Rightarrow> bool" where
  "is_OSError (OSError m) = True"
| "is_OSError (SameFileError m) = True"
| "is_OSError _ = False"

fun is_S3Error :: "py_exn \<Rightarrow> bool" where
  "is_S3Error (S3Error c m) = True"
| "is_S3Error _ = False"

fun is_AzureError :: "py_exn \<Rightarrow> bool" where
  "is_AzureError (AzureError m) = True"
| "is_AzureError _ = False"

fun is_DriverError :: "py_exn \<Rightarrow> bool" where
  "is_DriverError (DriverError m) = True"
| "is_DriverError _ = False"

text \<open>The calls to the outside, with their arguments.\<close>

datatype call =
    OsPathExists string
  | OsMakedirs string
  | ShutilCopyfile string string
  | MinioNew string string string bool "string option"
  | BucketExists string
  | MakeBucket string
  | FPutObject string string string
  | ListObjects string "string option" bool
  | StatObject string string
  | CredentialsFromFile string "string list"
  | BuildService string string
  | MediaFileUploadNew string
  | FilesList string string "string option" "nat option"
  | FilesCreate string "string option" "string option list" "string option" string
  | FilesGet "string option" string
  | PermissionsList "string option" string
  | PermissionsCreate "string option" string string string
  | FromConnectionString string
  | ContainerExists string
  | CreateContainer string
  | OpenRb string
  | UploadBlob string string string bool
  | BlobExists string string

type_synonym 'w st = "call list \<times> 'w"

text \<open>\<open>invoke ev f\<close> issues the call \<open>f\<close>: it is logged as \<open>ev\<close> and runs on the world.\<close>

definition invoke :: "call \<Rightarrow> ('w \<Rightarrow> 'r \<times> 'w) \<Rightarrow> 'w st \<Rightarrow> 'r \<times> 'w st" where
  "invoke ev f s = (case f (snd s) of (r, w') \<Rightarrow> (r, (fst s @ [ev], w')))"

text \<open>
  \<open>try: body except C as e: raise DriverError(pre + str(e))\<close>: an exception of the
  body that the clause catches is replaced, any other one propagates as it is.
\<close>

definition wrap_exn :: "(py_exn \<Rightarrow> bool) \<Rightarrow> string \<Rightarrow> py_exn \<Rightarrow> py_exn" where
  "wrap_exn catches pre e = (if catches e then DriverError (pre @ exn_str e) else e)"

definition try_except ::
  "(py_exn \<Rightarrow> bool) \<Rightarrow> string \<Rightarrow> (py_exn + 'a) \<times> 'w st \<Rightarrow> (py_exn + 'a) \<times> 'w st" where
  "try_except catches pre r =
     (case r of (Inl e, s') \<Rightarrow> (Inl (wrap_exn catches pre e), s') | (Inr v, s') \<Rightarrow> (Inr v, s'))"

text \<open>\<open>except Exception\<close> catches every exception of the model.\<close>

definition any_Exception :: "py_exn \<Rightarrow> bool" where
  "any_Exception e = True"

subsection \<open>Python string operations\<close>

text \<open>\<open>s.strip("/")\<close>\<close>

definition strip_slashes :: "string \<Rightarrow> string" where
  "strip_slashes s = rev (dropWhile (\<lambda>c. c = CHR ''/'') (rev (dropWhile (\<lambda>c. c = CHR ''/'') s)))"

text \<open>\<open>s.lower()\<close> on ASCII letters; other characters are left as they are.\<close>

definition lower_char :: "char \<Rightarrow> char" where
  "lower_char c =
     (case map_of (zip ''ABCDEFGHIJKLMNOPQRSTUVWXYZ'' ''abcdefghijklmnopqrstuvwxyz'') c of
        None \<Rightarrow> c
      | Some l \<Rightarrow> l)"

definition py_lower :: "string \<Rightarrow> string" where
  "py_lower s = map lower_char s"

text \<open>\<open>sub in s\<close>\<close>

fun py_contains :: "string \<Rightarrow> string \<Rightarrow> bool" where
  "py_contains sub [] = (sub = [])"
| "py_contains sub (c # cs) = (prefix sub (c # cs) \<or> py_contains sub cs)"

text \<open>\<open>s.replace(a, b)\<close> for a one-character \<open>a\<close>\<close>

definition py_replace_char :: "char \<Rightarrow> string \<Rightarrow> string \<Rightarrow> string" where
  "py_replace_char a b s = concat (map (\<lambda>c. if c = a then b else [c]) s)"

text \<open>How an f-string renders an optional string: \<open>None\<close> prints as the word None.\<close>

fun fmt_opt :: "string option \<Rightarrow> string" where
  "fmt_opt None = ''None''"
| "fmt_opt (Some s) = s"

text \<open>Truth value of an optional string: \<open>None\<close> and the empty string are false.\<close>

fun truthy_str :: "string option \<Rightarrow> bool" where
  "truthy_str None = False"
| "truthy_str (Some s) = (s \<noteq> [])"

text \<open>
  \<open>os.path.join(a, b)\<close> and \<open>os.path.dirname(p)\<close> of posixpath:
  \<^verbatim>\<open>
  def join(a, b):
      if b.startswith('/'): path = b
      elif not a or a.endswith('/'): path = a + b
      else: path = a + '/' + b
  def dirname(p):
      i = p.rfind('/') + 1
      head = p[:i]
      if head and head != '/' * len(head): head = head.rstrip('/')
      return head
  \<close>
\<close>

definition os_path_join :: "string \<Rightarrow> string \<Rightarrow> string" where
  "os_path_join a b =
     (if prefix ''/'' b then b
      else if a = [] \<or> suffix ''/'' a then a @ b
      else a @ ''/'' @ b)"

definition os_path_dirname :: "string \<Rightarrow> string" where
  "os_path_dirname p =
     (let head = rev (dropWhile (\<lambda>c. c \<noteq> CHR ''/'') (rev p)) in
      if head \<noteq> [] \<and> head \<noteq> replicate (length head) (CHR ''/'')
      then rev (dropWhile (\<lambda>c. c = CHR ''/'') (rev head))
      else head)"

subsection \<open>DriverType\<close>

fun DriverType_value :: "DriverType \<Rightarrow> string" where
  "DriverType_value LOCAL = ''local''"
| "DriverType_value MINIO = ''minio''"
| "DriverType_value GOOGLE_DRIVE = ''google_drive''"
| "DriverType_value AZURE = ''azure''"

text \<open>
  \<^verbatim>\<open>
  def __eq__(self, value):
      if isinstance(value, str):
          return self.value == value
  \<close>
  A call that falls off the end of the body returns \<open>None\<close>.
\<close>

fun DriverType_eq :: "DriverType \<Rightarrow> py_value \<Rightarrow> py_value" where
  "DriverType_eq self (PyStr s) = PyBool (DriverType_value self = s)"
| "DriverType_eq self v = PyNone"

text \<open>
  The expression \<open>v == DriverType.X\<close>. Python asks the left operand first: a
  \<open>DriverType\<close> on the left answers with its own \<open>__eq__\<close>; a string, a bool or
  \<open>None\<close> on the left answers \<open>NotImplemented\<close> for an enum member, and the reflected
  \<open>DriverType.X.__eq__(v)\<close> decides.
\<close>

fun py_eq_member :: "py_value \<Rightarrow> DriverType \<Rightarrow> py_value" where
  "py_eq_member (PyEnum e) d = DriverType_eq e (PyEnum d)"
| "py_eq_member v d = DriverType_eq d v"

text \<open>The truth value an \<open>if\<close> takes of a value; an enum member is true.\<close>

fun truthy :: "py_value \<Rightarrow> bool" where
  "truthy (PyBool b) = b"
| "truthy PyNone = False"
| "truthy (PyStr s) = (s \<noteq> [])"
| "truthy (PyEnum d) = True"

subsection \<open>Configuration\<close>

text \<open>
  The configuration value the drivers read. \<open>mc_secure\<close> is
  \<open>config.as_bool("minio.secure")\<close>; \<open>mc_bucket_subpath\<close> is \<open>None\<close> when the
  attribute is absent (\<open>hasattr\<close> is false) or holds \<open>None\<close>; \<open>share_with\<close> is a
  string, a list of strings or anything else.
\<close>

record minio_config =
  mc_endpoint :: string
  mc_access_key :: string
  mc_secret_key :: string
  mc_secure :: bool
  mc_region :: "string option"
  mc_bucket :: string
  mc_bucket_subpath :: "string option"

datatype share_with = ShareStr string | ShareList "string list" | ShareOther

record google_drive_config =
  gc_service_account_file :: string
  gc_folder :: string
  gc_share_with :: share_with

record azure_config =
  ac_connection_string :: string
  ac_container :: string

record config =
  cfg_driver :: py_value
  cfg_local_dest :: string
  cfg_minio :: minio_config
  cfg_google_drive :: google_drive_config
  cfg_azure :: azure_config

text \<open>Sequencing: the next statement runs only if the one before raised nothing.\<close>

definition and_then ::
  "(py_exn + 'a) \<times> 'w st \<Rightarrow> ('a \<Rightarrow> 'w st \<Rightarrow> (py_exn + 'b) \<times> 'w st) \<Rightarrow> (py_exn + 'b) \<times> 'w st" where
  "and_then r f = (case r of (Inl e, s') \<Rightarrow> (Inl e, s') | (Inr v, s') \<Rightarrow> f v s')"

subsection \<open>LocalDriver\<close>

text \<open>
  The file system: \<open>os.path.exists\<close> (which changes nothing and raises nothing),
  \<open>os.makedirs\<close> and \<open>shutil.copyfile\<close>.
\<close>

record 'w os_env =
  os_path_exists :: "string \<Rightarrow> 'w \<Rightarrow> bool"
  os_makedirs :: "string \<Rightarrow> 'w \<Rightarrow> (py_exn + unit) \<times> 'w"
  shutil_copyfile :: "string \<Rightarrow> string \<Rightarrow> 'w \<Rightarrow> (py_exn + unit) \<times> 'w"

record LocalDriver =
  ld_dest :: string

text \<open>\<open>if not os.path.exists(d): os.makedirs(d)\<close>\<close>

definition ensure_dir :: "'w os_env \<Rightarrow> string \<Rightarrow> 'w st \<Rightarrow> (py_exn + unit) \<times> 'w st" where
  "ensure_dir os d s =
     (case invoke (OsPathExists d) (\<lambda>w. (os_path_exists os d w, w)) s of
        (True, s1) \<Rightarrow> (Inr (), s1)
      | (False, s1) \<Rightarrow> invoke (OsMakedirs d) (os_makedirs os d) s1)"

definition LocalDriver_init :: "'w os_env \<Rightarrow> config \<Rightarrow> 'w st \<Rightarrow> (py_exn + LocalDriver) \<times> 'w st" where
  "LocalDriver_init os cfg s =
     (let dest = cfg_local_dest cfg in
      try_except is_OSError ''Local driver init error: ''
        (and_then (ensure_dir os dest s) (\<lambda>_ s1. (Inr \<lparr>ld_dest = dest\<rparr>, s1))))"

definition Local_file_exists :: "'w os_env \<Rightarrow> LocalDriver \<Rightarrow> string \<Rightarrow> 'w st \<Rightarrow> (py_exn + bool) \<times> 'w st" where
  "Local_file_exists os self obj_path s =
     (let p = os_path_join (ld_dest self) obj_path in
      case invoke (OsPathExists p) (\<lambda>w. (os_path_exists os p w, w)) s of
        (b, s1) \<Rightarrow> (Inr b, s1))"

definition Local_upload_file ::
  "'w os_env \<Rightarrow> LocalDriver \<Rightarrow> string \<Rightarrow> string \<Rightarrow> 'w st \<Rightarrow> (py_exn + string) \<times> 'w st" where
  "Local_upload_file os self src obj_path s =
     (let dest = os_path_join (ld_dest self) obj_path;
          dest_dir = os_path_dirname dest in
      try_except is_OSError ''Local driver error: ''
        (and_then (ensure_dir os dest_dir s) (\<lambda>_ s1.
         and_then (invoke (ShutilCopyfile src dest) (shutil_copyfile os src dest) s1) (\<lambda>_ s2.
         (Inr dest, s2)))))"

definition Local_get_file_url :: "LocalDriver \<Rightarrow> string \<Rightarrow> string" where
  "Local_get_file_url self obj_path = os_path_join (ld_dest self) obj_path"

subsection \<open>MinioDriver\<close>

text \<open>
  The minio client. \<open>fput_object\<close> returns the \<open>object_name\<close> of its result.
  \<open>list_objects\<close> returns an iterator: the model gives the objects it produces when it
  is run to its end and the exception that ended it, if one did.
\<close>

record minio_object =
  object_name :: string
  is_dir :: bool

record 'w minio_client =
  minio_new :: "string \<Rightarrow> string \<Rightarrow> string \<Rightarrow> bool \<Rightarrow> string option \<Rightarrow> 'w \<Rightarrow> (py_exn + unit) \<times> 'w"
  bucket_exists :: "string \<Rightarrow> 'w \<Rightarrow> (py_exn + bool) \<times> 'w"
  make_bucket :: "string \<Rightarrow> 'w \<Rightarrow> (py_exn + unit) \<times> 'w"
  fput_object :: "string \<Rightarrow> string \<Rightarrow> string \<Rightarrow> 'w \<Rightarrow> (py_exn + string) \<times> 'w"
  list_objects :: "string \<Rightarrow> string option \<Rightarrow> bool \<Rightarrow> 'w \<Rightarrow> (minio_object list \<times> py_exn option) \<times> 'w"
  stat_object :: "string \<Rightarrow> string \<Rightarrow> 'w \<Rightarrow> (py_exn + unit) \<times> 'w"

record MinioDriver =
  md_bucket :: string
  md_bucket_subpath :: "string option"
  md_base_url :: string

text \<open>
  \<^verbatim>\<open>
  self.bucket_subpath = None
  if hasattr(config.minio, "bucket_subpath"):
      if config.minio.bucket_subpath:
          self.bucket_subpath = config.minio.bucket_subpath.strip("/")
  \<close>
\<close>

definition minio_subpath :: "minio_config \<Rightarrow> string option" where
  "minio_subpath mc =
     (case mc_bucket_subpath mc of
        None \<Rightarrow> None
      | Some sp \<Rightarrow> if sp \<noteq> [] then Some (strip_slashes sp) else None)"

definition minio_base_url :: "minio_config \<Rightarrow> string" where
  "minio_base_url mc =
     (let scheme = (if mc_secure mc then ''https://'' else ''http://'') in
      if truthy_str (mc_region mc) \<and> py_contains ''amazonaws'' (py_lower (mc_endpoint mc))
      then scheme @ mc_bucket mc @ ''.s3.'' @ fmt_opt (mc_region mc) @ ''.amazonaws.com''
      else scheme @ mc_endpoint mc @ ''/'' @ mc_bucket mc)"

definition MinioDriver_init ::
  "'w minio_client \<Rightarrow> config \<Rightarrow> 'w st \<Rightarrow> (py_exn + MinioDriver) \<times> 'w st" where
  "MinioDriver_init cl cfg s =
     (let mc = cfg_minio cfg; bucket = mc_bucket mc in
      try_except is_S3Error ''MinIO driver init error: ''
        (and_then (invoke (MinioNew (mc_endpoint mc) (mc_access_key mc) (mc_secret_key mc) (mc_secure mc) (mc_region mc))
                     (minio_new cl (mc_endpoint mc) (mc_access_key mc) (mc_secret_key mc) (mc_secure mc) (mc_region mc)) s) (\<lambda>_ s1.
         and_then (invoke (BucketExists bucket) (bucket_exists cl bucket) s1) (\<lambda>bucket_found s2.
         and_then (if \<not> bucket_found then invoke (MakeBucket bucket) (make_bucket cl bucket) s2
                   else (Inr (), s2)) (\<lambda>_ s3.
         (Inr \<lparr>md_bucket = bucket, md_bucket_subpath = minio_subpath mc,
               md_base_url = minio_base_url mc\<rparr>, s3))))))"

text \<open>
  \<^verbatim>\<open>
  if self.bucket_subpath:
      obj_path = f"{self.bucket_subpath}/{obj_path}"
  \<close>
  as \<open>upload_file\<close>, \<open>get_file_url\<close> and \<open>file_exists\<close> all start.
\<close>

definition minio_key :: "MinioDriver \<Rightarrow> string \<Rightarrow> string" where
  "minio_key self obj_path =
     (if truthy_str (md_bucket_subpath self)
      then fmt_opt (md_bucket_subpath self) @ ''/'' @ obj_path
      else obj_path)"

definition Minio_upload_file ::
  "'w minio_client \<Rightarrow> MinioDriver \<Rightarrow> string \<Rightarrow> string \<Rightarrow> 'w st \<Rightarrow> (py_exn + string) \<times> 'w st" where
  "Minio_upload_file cl self src obj_path s =
     (let key = minio_key self obj_path in
      try_except is_S3Error ''MinIO driver error: ''
        (and_then (invoke (FPutObject (md_bucket self) key src) (fput_object cl (md_bucket self) key src) s)
           (\<lambda>res_object_name s1. (Inr (md_base_url self @ ''/'' @ res_object_name), s1))))"

definition minio_effective_prefix :: "MinioDriver \<Rightarrow> string option \<Rightarrow> string option" where
  "minio_effective_prefix self pfx =
     (if truthy_str (md_bucket_subpath self)
      then (let sp = fmt_opt (md_bucket_subpath self);
                subpath_dir = (if suffix ''/'' sp then sp else sp @ ''/'') in
            if truthy_str pfx then Some (subpath_dir @ fmt_opt pfx) else Some subpath_dir)
      else pfx)"

text \<open>
  \<^verbatim>\<open>
  prefix_to_strip = f"{self.bucket_subpath}/" if self.bucket_subpath else ""
  if prefix_to_strip and name.startswith(prefix_to_strip):
      name = name[len(prefix_to_strip):]
  \<close>
\<close>

definition minio_strip :: "MinioDriver \<Rightarrow> string \<Rightarrow> string" where
  "minio_strip self name =
     (let prefix_to_strip =
            (if truthy_str (md_bucket_subpath self) then fmt_opt (md_bucket_subpath self) @ ''/'' else [])
      in if prefix_to_strip \<noteq> [] \<and> prefix prefix_to_strip name
         then drop (length prefix_to_strip) name else name)"

text \<open>The loop over the listed objects: the names it yields, in order.\<close>

fun minio_yield :: "MinioDriver \<Rightarrow> minio_object list \<Rightarrow> string list" where
  "minio_yield self [] = []"
| "minio_yield self (obj # objs) =
     (if is_dir obj then minio_yield self objs
      else minio_strip self (object_name obj) # minio_yield self objs)"

text \<open>
  \<open>list_files\<close> run to its end: the names yielded, and the exception that ended the
  generator if one did (an \<open>S3Error\<close> of the iteration is wrapped).
\<close>

definition Minio_list_files ::
  "'w minio_client \<Rightarrow> MinioDriver \<Rightarrow> string option \<Rightarrow> 'w st \<Rightarrow> (string list \<times> py_exn option) \<times> 'w st" where
  "Minio_list_files cl self pfx s =
     (let effective_prefix = minio_effective_prefix self pfx in
      case invoke (ListObjects (md_bucket self) effective_prefix True)
             (list_objects cl (md_bucket self) effective_prefix True) s of
        ((objects, err), s1) \<Rightarrow>
          ((minio_yield self objects,
            map_option (wrap_exn is_S3Error ''MinIO driver list error: '') err), s1))"

definition Minio_get_file_url :: "MinioDriver \<Rightarrow> string \<Rightarrow> string" where
  "Minio_get_file_url self obj_path = md_base_url self @ ''/'' @ minio_key self obj_path"

definition Minio_file_exists ::
  "'w minio_client \<Rightarrow> MinioDriver \<Rightarrow> string \<Rightarrow> 'w st \<Rightarrow> (py_exn + bool) \<times> 'w st" where
  "Minio_file_exists cl self obj_path s =
     (let key = minio_key self obj_path in
      case invoke (StatObject (md_bucket self) key) (stat_object cl (md_bucket self) key) s of
        (Inr u, s1) \<Rightarrow> (Inr True, s1)
      | (Inl e, s1) \<Rightarrow>
          (case e of
             S3Error code m \<Rightarrow>
               if code = ''NoSuchKey'' then (Inr False, s1)
               else (Inl (DriverError (''MinIO driver exists error: '' @ exn_str e)), s1)
           | _ \<Rightarrow> (Inl e, s1)))"

subsection \<open>GoogleDriveDriver\<close>

text \<open>
  The Drive service. A file entry of a listing has an id, a name and, when the
  response carries one, a \<open>webViewLink\<close>; a page of \<open>files().list\<close> has its entries
  (\<open>results.get("files", [])\<close>) and \<open>results.get("nextPageToken")\<close>.
  \<open>files_create\<close> takes the body's name, \<open>mimeType\<close> and parents, the source file of
  the media body and the fields, and returns \<open>.get("id")\<close> of the response;
  \<open>files_get\<close> returns \<open>.get("webViewLink")\<close> of the response.
\<close>

record drive_file =
  df_id :: string
  df_name :: string
  df_webViewLink :: "string option"

record files_page =
  fp_files :: "drive_file list"
  fp_nextPageToken :: "string option"

record drive_permission =
  perm_emailAddress :: "string option"

record 'w drive_service =
  credentials_from_file :: "string \<Rightarrow> string list \<Rightarrow> 'w \<Rightarrow> (py_exn + unit) \<times> 'w"
  build_service :: "string \<Rightarrow> string \<Rightarrow> 'w \<Rightarrow> (py_exn + unit) \<times> 'w"
  media_file_upload :: "string \<Rightarrow> 'w \<Rightarrow> (py_exn + unit) \<times> 'w"
  files_list :: "string \<Rightarrow> string \<Rightarrow> string option \<Rightarrow> nat option \<Rightarrow> 'w \<Rightarrow> (py_exn + files_page) \<times> 'w"
  files_create :: "string \<Rightarrow> string option \<Rightarrow> string option list \<Rightarrow> string option \<Rightarrow> string \<Rightarrow> 'w
                     \<Rightarrow> (py_exn + string option) \<times> 'w"
  files_get :: "string option \<Rightarrow> string \<Rightarrow> 'w \<Rightarrow> (py_exn + string option) \<times> 'w"
  permissions_list :: "string option \<Rightarrow> string \<Rightarrow> 'w \<Rightarrow> (py_exn + drive_permission list) \<times> 'w"
  permissions_create :: "string option \<Rightarrow> string \<Rightarrow> string \<Rightarrow> string \<Rightarrow> 'w \<Rightarrow> (py_exn + unit) \<times> 'w"

text \<open>
  The driver object: \<open>_folder\<close>, \<open>_folder_id\<close> (a string or \<open>None\<close>) and the
  attribute \<open>_url_cache\<close>, which does not exist (\<open>None\<close>) before the first
  \<open>list_files\<close> runs.
\<close>

record GoogleDriveDriver =
  gd_folder :: string
  gd_folder_id :: "string option"
  gd_url_cache :: "(string \<rightharpoonup> string) option"

definition quote :: string where
  "quote = [CHR 0x27]"

definition backslash :: string where
  "backslash = [CHR 0x5C]"

definition folder_mime :: string where
  "folder_mime = ''application/vnd.google-apps.folder''"

definition gd_folder_exists ::
  "'w drive_service \<Rightarrow> string \<Rightarrow> 'w st \<Rightarrow> (py_exn + string option) \<times> 'w st" where
  "gd_folder_exists sv folder_name s =
     (let query = ''name = '' @ quote @ folder_name @ quote @ '' and mimeType = '' @ quote @ folder_mime @ quote in
      and_then
        (try_except any_Exception ''Google Drive folder exists error: ''
           (and_then (invoke (FilesList query ''files(id, name)'' None None)
                        (files_list sv query ''files(id, name)'' None None) s)
              (\<lambda>results s1. (Inr (fp_files results), s1))))
        (\<lambda>items s1. case items of [] \<Rightarrow> (Inr None, s1) | it # _ \<Rightarrow> (Inr (Some (df_id it)), s1)))"

definition gd_create_folder ::
  "'w drive_service \<Rightarrow> string \<Rightarrow> 'w st \<Rightarrow> (py_exn + string option) \<times> 'w st" where
  "gd_create_folder sv folder_name s =
     try_except any_Exception ''Google Drive create folder error: ''
       (invoke (FilesCreate folder_name (Some folder_mime) [] None ''id'')
          (files_create sv folder_name (Some folder_mime) [] None ''id'') s)"

definition gd_file_link ::
  "'w drive_service \<Rightarrow> string option \<Rightarrow> 'w st \<Rightarrow> (py_exn + string option) \<times> 'w st" where
  "gd_file_link sv file_id s =
     try_except any_Exception ''Google Drive file link error: ''
       (invoke (FilesGet file_id ''webViewLink'') (files_get sv file_id ''webViewLink'') s)"

text \<open>
  \<open>any(permission.get("emailAddress", "").lower() == email.lower() for permission in ...)\<close>
\<close>

definition holds_permission :: "drive_permission list \<Rightarrow> string \<Rightarrow> bool" where
  "holds_permission permissions email =
     list_ex (\<lambda>permission.
        py_lower (case perm_emailAddress permission of None \<Rightarrow> [] | Some a \<Rightarrow> a) = py_lower email)
       permissions"

definition permission_fields :: string where
  "permission_fields = ''permissions(id, emailAddress, role, type)''"

definition gd_has_already_permission ::
  "'w drive_service \<Rightarrow> string option \<Rightarrow> string \<Rightarrow> 'w st \<Rightarrow> (py_exn + bool) \<times> 'w st" where
  "gd_has_already_permission sv folder_id email s =
     try_except any_Exception ''Google Drive has permission error: ''
       (and_then (invoke (PermissionsList folder_id permission_fields)
                    (permissions_list sv folder_id permission_fields) s)
          (\<lambda>permissions s1. (Inr (holds_permission permissions email), s1)))"

definition gd_share_with ::
  "'w drive_service \<Rightarrow> string option \<Rightarrow> string \<Rightarrow> 'w st \<Rightarrow> (py_exn + unit) \<times> 'w st" where
  "gd_share_with sv folder_id email s =
     and_then (gd_has_already_permission sv folder_id email s) (\<lambda>has s1.
       if \<not> has
       then try_except any_Exception ''Google Drive sharing folder error: ''
              (invoke (PermissionsCreate folder_id ''user'' ''writer'' email)
                 (permissions_create sv folder_id ''user'' ''writer'' email) s1)
       else (Inr (), s1))"

text \<open>
  The address check \<open>email_regex.match(email)\<close> for the pattern
  \<^verbatim>\<open>(^[a-zA-Z0-9_.+-]+@[a-zA-Z0-9-]+\.[a-zA-Z0-9-.]+$)\<close>.
  No character class contains the character that must follow it, so each greedy run is
  the only way to match: the longest run of the first class, an at sign, the longest run
  of the second class, a dot, the longest run of the third class, and then the end of
  the string, which \<open>$\<close> also finds before one final newline.
\<close>

definition is_alnum :: "char \<Rightarrow> bool" where
  "is_alnum c = (let n = (of_char c :: nat) in
     (97 \<le> n \<and> n \<le> 122) \<or> (65 \<le> n \<and> n \<le> 90) \<or> (48 \<le> n \<and> n \<le> 57))"

definition email_local_char :: "char \<Rightarrow> bool" where
  "email_local_char c = (is_alnum c \<or> c = CHR ''_'' \<or> c = CHR ''.'' \<or> c = CHR ''+'' \<or> c = CHR ''-'')"

definition email_domain_char :: "char \<Rightarrow> bool" where
  "email_domain_char c = (is_alnum c \<or> c = CHR ''-'')"

definition email_tail_char :: "char \<Rightarrow> bool" where
  "email_tail_char c = (is_alnum c \<or> c = CHR ''-'' \<or> c = CHR ''.'')"

definition email_regex_match :: "string \<Rightarrow> bool" where
  "email_regex_match s =
     (takeWhile email_local_char s \<noteq> [] \<and>
      (case dropWhile email_local_char s of
         [] \<Rightarrow> False
       | c1 # r1 \<Rightarrow>
           c1 = CHR ''@'' \<and> takeWhile email_domain_char r1 \<noteq> [] \<and>
           (case dropWhile email_domain_char r1 of
              [] \<Rightarrow> False
            | c2 # r2 \<Rightarrow>
                c2 = CHR ''.'' \<and> takeWhile email_tail_char r2 \<noteq> [] \<and>
                (dropWhile email_tail_char r2 = [] \<or> dropWhile email_tail_char r2 = [CHR 0x0A]))))"

definition gd_get_share_with :: "google_drive_config \<Rightarrow> py_exn + string list" where
  "gd_get_share_with config_google_drive =
     (case gc_share_with config_google_drive of
        ShareStr e \<Rightarrow> Inr (if email_regex_match e then [e] else [])
      | ShareList es \<Rightarrow> Inr (filter email_regex_match es)
      | ShareOther \<Rightarrow> Inl (DriverError ''Google Drive sharing: Incorrect GoogleDrive shared_with settings''))"

text \<open>\<open>for email in emails: if email: self._share_with(email)\<close>\<close>

fun gd_share_all ::
  "'w drive_service \<Rightarrow> string option \<Rightarrow> string list \<Rightarrow> 'w st \<Rightarrow> (py_exn + unit) \<times> 'w st" where
  "gd_share_all sv folder_id [] s = (Inr (), s)"
| "gd_share_all sv folder_id (email # emails) s =
     (if email \<noteq> []
      then and_then (gd_share_with sv folder_id email s) (\<lambda>_ s1. gd_share_all sv folder_id emails s1)
      else gd_share_all sv folder_id emails s)"

definition drive_scopes :: "string list" where
  "drive_scopes = [''https://www.googleapis.com/auth/drive.file'']"

text \<open>The constructor up to the resolved folder id.\<close>

definition gd_resolve_folder ::
  "'w drive_service \<Rightarrow> config \<Rightarrow> 'w st \<Rightarrow> (py_exn + string option) \<times> 'w st" where
  "gd_resolve_folder sv cfg s =
     (let gc = cfg_google_drive cfg in
      and_then (invoke (CredentialsFromFile (gc_service_account_file gc) drive_scopes)
                  (credentials_from_file sv (gc_service_account_file gc) drive_scopes) s) (\<lambda>_ s1.
      and_then (invoke (BuildService ''drive'' ''v3'') (build_service sv ''drive'' ''v3'') s1) (\<lambda>_ s2.
      and_then (gd_folder_exists sv (gc_folder gc) s2) (\<lambda>folder_id s3.
      if \<not> truthy_str folder_id then gd_create_folder sv (gc_folder gc) s3
      else (Inr folder_id, s3)))))"

definition GoogleDriveDriver_init ::
  "'w drive_service \<Rightarrow> config \<Rightarrow> 'w st \<Rightarrow> (py_exn + GoogleDriveDriver) \<times> 'w st" where
  "GoogleDriveDriver_init sv cfg s =
     (let gc = cfg_google_drive cfg in
      try_except any_Exception ''GoogleDrive driver init error: ''
        (and_then (gd_resolve_folder sv cfg s) (\<lambda>folder_id s1.
         and_then (case gd_get_share_with gc of Inl e \<Rightarrow> (Inl e, s1) | Inr emails \<Rightarrow> (Inr emails, s1)) (\<lambda>emails s2.
         and_then (gd_share_all sv folder_id emails s2) (\<lambda>_ s3.
         (Inr \<lparr>gd_folder = gc_folder gc, gd_folder_id = folder_id, gd_url_cache = None\<rparr>, s3))))))"

text \<open>
  \<open>upload_file\<close> returns \<open>file.get("webViewLink")\<close> of the second call: a string or
  \<open>None\<close>.
\<close>

definition Google_upload_file ::
  "'w drive_service \<Rightarrow> GoogleDriveDriver \<Rightarrow> string \<Rightarrow> string \<Rightarrow> 'w st \<Rightarrow> (py_exn + string option) \<times> 'w st" where
  "Google_upload_file sv self src obj_path s =
     and_then
       (try_except any_Exception ''GoogleDrive driver error: ''
          (and_then (invoke (MediaFileUploadNew src) (media_file_upload sv src) s) (\<lambda>_ s1.
           invoke (FilesCreate obj_path None [gd_folder_id self] (Some src) ''id'')
             (files_create sv obj_path None [gd_folder_id self] (Some src) ''id'') s1)))
       (\<lambda>file_id s2. gd_file_link sv file_id s2)"

text \<open>\<open>prefix is None or name.startswith(prefix)\<close>\<close>

fun matches_prefix :: "string option \<Rightarrow> string \<Rightarrow> bool" where
  "matches_prefix None name = True"
| "matches_prefix (Some p) name = prefix p name"

text \<open>\<open>file.get("webViewLink", "")\<close>\<close>

definition link_or_empty :: "drive_file \<Rightarrow> string" where
  "link_or_empty file = (case df_webViewLink file of None \<Rightarrow> [] | Some u \<Rightarrow> u)"

text \<open>The cache as a dictionary: an object without the attribute has no entry.\<close>

definition cache_of :: "GoogleDriveDriver \<Rightarrow> (string \<rightharpoonup> string)" where
  "cache_of self = (case gd_url_cache self of None \<Rightarrow> Map.empty | Some c \<Rightarrow> c)"

definition list_query :: "GoogleDriveDriver \<Rightarrow> string" where
  "list_query self =
     quote @ fmt_opt (gd_folder_id self) @ quote @ '' in parents and trashed = false ''
     @ ''and mimeType != '' @ quote @ folder_mime @ quote"

definition list_fields :: string where
  "list_fields = ''nextPageToken, files(name, webViewLink)''"

text \<open>
  \<open>list_files\<close> is a generator. A suspended generator is either not started, or stopped
  at the \<open>yield\<close> inside the \<open>for\<close> loop with the rest of the current page and its
  \<open>nextPageToken\<close> still to visit, or finished. Inside a run the position is either in
  the \<open>for\<close> loop or at the head of the \<open>while\<close> loop, about to fetch a page.
\<close>

datatype gd_pos = InFor "drive_file list" "string option" | AtFetch "string option"

datatype gd_gen = GenStart "string option" | GenAt "string option" "drive_file list" "string option" | GenDone

datatype gen_result = Yielded string | Exhausted | Raised py_exn | OutOfFuel

text \<open>
  The generator runs from a position to its next \<open>yield\<close>, to its end or to an
  exception. The backend may answer every request with one more \<open>nextPageToken\<close>, so the
  run may fetch pages forever: \<open>n\<close> bounds the number of pages one run may fetch, and
  \<open>OutOfFuel\<close> says the run was still going on.
\<close>

function gd_advance ::
  "nat \<Rightarrow> 'w drive_service \<Rightarrow> GoogleDriveDriver \<Rightarrow> string option \<Rightarrow> gd_pos \<Rightarrow> 'w st
     \<Rightarrow> gen_result \<times> GoogleDriveDriver \<times> gd_gen \<times> 'w st" where
  "gd_advance n sv self pfx (InFor (file # files) tok) s =
     (let name = df_name file in
      if matches_prefix pfx name
      then (Yielded name,
            self\<lparr>gd_url_cache := Some ((cache_of self)(name \<mapsto> link_or_empty file))\<rparr>,
            GenAt pfx files tok, s)
      else gd_advance n sv self pfx (InFor files tok) s)"
| "gd_advance n sv self pfx (InFor [] tok) s =
     (if \<not> truthy_str tok then (Exhausted, self, GenDone, s)
      else gd_advance n sv self pfx (AtFetch tok) s)"
| "gd_advance 0 sv self pfx (AtFetch tok) s = (OutOfFuel, self, GenDone, s)"
| "gd_advance (Suc n) sv self pfx (AtFetch tok) s =
     (case invoke (FilesList (list_query self) list_fields tok (Some 1000))
             (files_list sv (list_query self) list_fields tok (Some 1000)) s of
        (Inl e, s1) \<Rightarrow> (Raised (wrap_exn any_Exception ''Google Drive list error: '' e), self, GenDone, s1)
      | (Inr results, s1) \<Rightarrow>
          gd_advance n sv self pfx (InFor (fp_files results) (fp_nextPageToken results)) s1)"
  by pat_completeness auto
termination
  by (relation "measures [\<lambda>(n, sv, self, pfx, pos, s). n,
                          \<lambda>(n, sv, self, pfx, pos, s). (case pos of AtFetch t \<Rightarrow> 0 | InFor fs t \<Rightarrow> Suc (length fs))]")
     auto

text \<open>
  One \<open>next()\<close> on the generator. The first one creates the cache if the object has
  none, and fetches the first page with no page token.
\<close>

definition gd_list_next ::
  "nat \<Rightarrow> 'w drive_service \<Rightarrow> GoogleDriveDriver \<Rightarrow> gd_gen \<Rightarrow> 'w st
     \<Rightarrow> gen_result \<times> GoogleDriveDriver \<times> gd_gen \<times> 'w st" where
  "gd_list_next n sv self gen s =
     (case gen of
        GenStart pfx \<Rightarrow>
          gd_advance n sv (self\<lparr>gd_url_cache := Some (cache_of self)\<rparr>) pfx (AtFetch None) s
      | GenAt pfx files tok \<Rightarrow> gd_advance n sv self pfx (InFor files tok) s
      | GenDone \<Rightarrow> (Exhausted, self, GenDone, s))"

text \<open>
  A caller that asks the generator for up to \<open>k\<close> names and then drops it: the names it
  got, and how the last \<open>next()\<close> ended (\<open>None\<close> when all \<open>k\<close> were yielded).
\<close>

fun gd_list_take ::
  "nat \<Rightarrow> nat \<Rightarrow> 'w drive_service \<Rightarrow> GoogleDriveDriver \<Rightarrow> gd_gen \<Rightarrow> 'w st
     \<Rightarrow> (string list \<times> gen_result option) \<times> GoogleDriveDriver \<times> 'w st" where
  "gd_list_take n 0 sv self gen s = (([], None), self, s)"
| "gd_list_take n (Suc k) sv self gen s =
     (case gd_list_next n sv self gen s of
        (Yielded name, self1, gen1, s1) \<Rightarrow>
          (case gd_list_take n k sv self1 gen1 s1 of
             ((names, r), self2, s2) \<Rightarrow> ((name # names, r), self2, s2))
      | (r, self1, gen1, s1) \<Rightarrow> (([], Some r), self1, s1))"

text \<open>
  For statements about a run of the generator: the entries of the current page that a
  position or a suspended generator still has to visit; the entries that some
  \<open>files().list\<close> request of the service returns; and the calls that are the page
  requests of \<open>list_files\<close>.
\<close>

fun pos_pending :: "gd_pos \<Rightarrow> drive_file list" where
  "pos_pending (InFor files tok) = files"
| "pos_pending (AtFetch tok) = []"

fun gen_pending :: "gd_gen \<Rightarrow> drive_file list" where
  "gen_pending (GenAt pfx files tok) = files"
| "gen_pending g = []"

definition listed :: "'w drive_service \<Rightarrow> drive_file \<Rightarrow> bool" where
  "listed sv entry =
     (\<exists>q fl tok ps w page w'. files_list sv q fl tok ps w = (Inr page, w') \<and> entry \<in> set (fp_files page))"

fun is_list_call :: "GoogleDriveDriver \<Rightarrow> call \<Rightarrow> bool" where
  "is_list_call self (FilesList q fl tok ps) = (q = list_query self \<and> fl = list_fields \<and> ps = Some 1000)"
| "is_list_call self c = False"

text \<open>The grant calls: \<open>permissions().create\<close>.\<close>

fun is_grant_call :: "call \<Rightarrow> bool" where
  "is_grant_call (PermissionsCreate fid ty role email) = True"
| "is_grant_call c = False"

text \<open>
  \<open>obj_path.replace("\\", "\\\\").replace("'", "\\'")\<close> and the exact-name query.
\<close>

definition escape_name :: "string \<Rightarrow> string" where
  "escape_name obj_path =
     py_replace_char (CHR 0x27) (backslash @ quote)
       (py_replace_char (CHR 0x5C) (backslash @ backslash) obj_path)"

definition name_query :: "GoogleDriveDriver \<Rightarrow> string \<Rightarrow> string" where
  "name_query self obj_path =
     quote @ fmt_opt (gd_folder_id self) @ quote @ '' in parents and ''
     @ ''name = '' @ quote @ escape_name obj_path @ quote @ '' and trashed = false''"

definition Google_get_file_url ::
  "'w drive_service \<Rightarrow> GoogleDriveDriver \<Rightarrow> string \<Rightarrow> 'w st \<Rightarrow> (py_exn + string) \<times> 'w st" where
  "Google_get_file_url sv self obj_path s =
     (case cache_of self obj_path of
        Some url \<Rightarrow> (Inr url, s)
      | None \<Rightarrow>
          try_except any_Exception ''Google Drive get file URL error: ''
            (and_then (invoke (FilesList (name_query self obj_path) ''files(id, webViewLink)'' None (Some 1))
                         (files_list sv (name_query self obj_path) ''files(id, webViewLink)'' None (Some 1)) s)
               (\<lambda>results s1. case fp_files results of
                                 [] \<Rightarrow> (Inr [], s1)
                               | file # _ \<Rightarrow> (Inr (link_or_empty file), s1))))"

definition Google_file_exists ::
  "'w drive_service \<Rightarrow> GoogleDriveDriver \<Rightarrow> string \<Rightarrow> 'w st \<Rightarrow> (py_exn + bool) \<times> 'w st" where
  "Google_file_exists sv self obj_path s =
     (case cache_of self obj_path of
        Some url \<Rightarrow> (Inr True, s)
      | None \<Rightarrow>
          try_except any_Exception ''Google Drive file exists error: ''
            (and_then (invoke (FilesList (name_query self obj_path) ''files(id)'' None (Some 1))
                         (files_list sv (name_query self obj_path) ''files(id)'' None (Some 1)) s)
               (\<lambda>results s1. (Inr (length (fp_files results) > 0), s1))))"

subsection \<open>AzureDriver\<close>

text \<open>
  The Azure SDK and the built-in \<open>open(src, "rb")\<close>, which gives the bytes of the
  file. \<open>blob_url\<close> is the \<open>url\<close> attribute of the blob client of a connection string,
  a container and a blob name; getting the container client and the blob client issues
  no request.
\<close>

record 'w azure_sdk =
  from_connection_string :: "string \<Rightarrow> 'w \<Rightarrow> (py_exn + unit) \<times> 'w"
  container_exists :: "string \<Rightarrow> 'w \<Rightarrow> (py_exn + bool) \<times> 'w"
  create_container :: "string \<Rightarrow> 'w \<Rightarrow> (py_exn + unit) \<times> 'w"
  open_rb :: "string \<Rightarrow> 'w \<Rightarrow> (py_exn + string) \<times> 'w"
  upload_blob :: "string \<Rightarrow> string \<Rightarrow> string \<Rightarrow> bool \<Rightarrow> 'w \<Rightarrow> (py_exn + unit) \<times> 'w"
  blob_url :: "string \<Rightarrow> string \<Rightarrow> string \<Rightarrow> string"
  blob_exists :: "string \<Rightarrow> string \<Rightarrow> 'w \<Rightarrow> (py_exn + bool) \<times> 'w"

record AzureDriver =
  az_connection_string :: string
  az_container_name :: string

definition AzureDriver_init ::
  "'w azure_sdk \<Rightarrow> config \<Rightarrow> 'w st \<Rightarrow> (py_exn + AzureDriver) \<times> 'w st" where
  "AzureDriver_init az cfg s =
     (let connection_string = ac_connection_string (cfg_azure cfg);
          container_name = ac_container (cfg_azure cfg) in
      try_except is_AzureError ''Azure driver init error: ''
        (and_then (invoke (FromConnectionString connection_string)
                     (from_connection_string az connection_string) s) (\<lambda>_ s1.
         and_then (invoke (ContainerExists container_name) (container_exists az container_name) s1) (\<lambda>ex s2.
         and_then (if \<not> ex then invoke (CreateContainer container_name) (create_container az container_name) s2
                   else (Inr (), s2)) (\<lambda>_ s3.
         (Inr \<lparr>az_connection_string = connection_string, az_container_name = container_name\<rparr>, s3))))))"

definition Azure_upload_file ::
  "'w azure_sdk \<Rightarrow> AzureDriver \<Rightarrow> string \<Rightarrow> string \<Rightarrow> 'w st \<Rightarrow> (py_exn + string) \<times> 'w st" where
  "Azure_upload_file az self src obj_path s =
     try_except is_AzureError ''Azure driver error: ''
       (and_then (invoke (OpenRb src) (open_rb az src) s) (\<lambda>data s1.
        and_then (invoke (UploadBlob (az_container_name self) obj_path data True)
                    (upload_blob az (az_container_name self) obj_path data True) s1) (\<lambda>_ s2.
        (Inr (blob_url az (az_connection_string self) (az_container_name self) obj_path), s2))))"

definition Azure_get_file_url :: "'w azure_sdk \<Rightarrow> AzureDriver \<Rightarrow> string \<Rightarrow> string" where
  "Azure_get_file_url az self obj_path =
     blob_url az (az_connection_string self) (az_container_name self) obj_path"

definition Azure_file_exists ::
  "'w azure_sdk \<Rightarrow> AzureDriver \<Rightarrow> string \<Rightarrow> 'w st \<Rightarrow> (py_exn + bool) \<times> 'w st" where
  "Azure_file_exists az self obj_path s =
     try_except is_AzureError ''Azure driver exists error: ''
       (invoke (BlobExists (az_container_name self) obj_path)
          (blob_exists az (az_container_name self) obj_path) s)"

subsection \<open>create_driver\<close>

record 'w env =
  env_os :: "'w os_env"
  env_minio :: "'w minio_client"
  env_drive :: "'w drive_service"
  env_azure :: "'w azure_sdk"

datatype driver =
    LocalD LocalDriver
  | MinioD MinioDriver
  | GoogleDriveD GoogleDriveDriver
  | AzureD AzureDriver

text \<open>The result is the driver object, or \<open>None\<close> when no branch was taken.\<close>

definition create_driver :: "'w env \<Rightarrow> config \<Rightarrow> 'w st \<Rightarrow> (py_exn + driver option) \<times> 'w st" where
  "create_driver env cfg s =
     (if truthy (py_eq_member (cfg_driver cfg) LOCAL)
      then and_then (LocalDriver_init (env_os env) cfg s) (\<lambda>d s1. (Inr (Some (LocalD d)), s1))
      else if truthy (py_eq_member (cfg_driver cfg) MINIO)
      then and_then (MinioDriver_init (env_minio env) cfg s) (\<lambda>d s1. (Inr (Some (MinioD d)), s1))
      else if truthy (py_eq_member (cfg_driver cfg) GOOGLE_DRIVE)
      then and_then (GoogleDriveDriver_init (env_drive env) cfg s) (\<lambda>d s1. (Inr (Some (GoogleDriveD d)), s1))
      else if truthy (py_eq_member (cfg_driver cfg) AZURE)
      then and_then (AzureDriver_init (env_azure env) cfg s) (\<lambda>d s1. (Inr (Some (AzureD d)), s1))
      else (Inr None, s))"

subsection \<open>An in-memory backend\<close>

text \<open>
  A small concrete world on which the drivers can be run: the paths of the file system,
  the objects of one bucket, the files of one Drive folder (whose id is \<open>F1\<close>), the
  addresses that hold a permission on it, and the blobs of one container. Reading a
  source file that is not among the paths raises \<open>OSError\<close>.
\<close>

record mem_world =
  mw_paths :: "string list"
  mw_objects :: "minio_object list"
  mw_files :: "drive_file list"
  mw_grants :: "string list"
  mw_blobs :: "string list"

definition no_such_file :: py_exn where
  "no_such_file = OSError ''[Errno 2] No such file or directory''"

definition mem_os :: "mem_world os_env" where
  "mem_os = \<lparr>
     os_path_exists = (\<lambda>p w. p \<in> set (mw_paths w)),
     os_makedirs = (\<lambda>p w. (Inr (), w\<lparr>mw_paths := p # mw_paths w\<rparr>)),
     shutil_copyfile = (\<lambda>src dst w.
        if src \<in> set (mw_paths w) then (Inr (), w\<lparr>mw_paths := dst # mw_paths w\<rparr>)
        else (Inl no_such_file, w))\<rparr>"

definition mem_minio :: "mem_world minio_client" where
  "mem_minio = \<lparr>
     minio_new = (\<lambda>endpoint access_key secret_key secure region w. (Inr (), w)),
     bucket_exists = (\<lambda>b w. (Inr True, w)),
     make_bucket = (\<lambda>b w. (Inr (), w)),
     fput_object = (\<lambda>b k src w.
        if src \<in> set (mw_paths w)
        then (Inr k, w\<lparr>mw_objects := \<lparr>object_name = k, is_dir = False\<rparr> # mw_objects w\<rparr>)
        else (Inl no_such_file, w)),
     list_objects = (\<lambda>b pfx recursive w.
        ((filter (\<lambda>obj. prefix (case pfx of None \<Rightarrow> [] | Some p \<Rightarrow> p) (object_name obj)) (mw_objects w),
          None), w)),
     stat_object = (\<lambda>b k w.
        if k \<in> set (map object_name (mw_objects w)) then (Inr (), w)
        else (Inl (S3Error ''NoSuchKey'' ''S3 operation failed; code: NoSuchKey''), w))\<rparr>"

definition mem_gd :: GoogleDriveDriver where
  "mem_gd = \<lparr>gd_folder = ''media'', gd_folder_id = Some ''F1'', gd_url_cache = None\<rparr>"

definition mem_drive :: "mem_world drive_service" where
  "mem_drive = \<lparr>
     credentials_from_file = (\<lambda>path scopes w. (Inr (), w)),
     build_service = (\<lambda>name version w. (Inr (), w)),
     media_file_upload = (\<lambda>src w.
        if src \<in> set (mw_paths w) then (Inr (), w) else (Inl no_such_file, w)),
     files_list = (\<lambda>q fields tok page_size w.
        (Inr \<lparr>fp_files =
                (if prefix ''name = '' q
                 then [\<lparr>df_id = ''F1'', df_name = ''media'', df_webViewLink = None\<rparr>]
                 else if q = list_query mem_gd then mw_files w
                 else filter (\<lambda>f. q = name_query mem_gd (df_name f)) (mw_files w)),
              fp_nextPageToken = None\<rparr>, w)),
     files_create = (\<lambda>name mime parents media fields w.
        (Inr (Some (''id-'' @ name)),
         w\<lparr>mw_files := mw_files w @
              [\<lparr>df_id = ''id-'' @ name, df_name = name,
                df_webViewLink = Some (''https://drive.google.com/file/d/id-'' @ name @ ''/view'')\<rparr>]\<rparr>)),
     files_get = (\<lambda>file_id fields w.
        (Inr (case filter (\<lambda>f. Some (df_id f) = file_id) (mw_files w) of
                [] \<Rightarrow> None | f # fs \<Rightarrow> df_webViewLink f), w)),
     permissions_list = (\<lambda>file_id fields w.
        (Inr (map (\<lambda>a. \<lparr>perm_emailAddress = Some a\<rparr>) (mw_grants w)), w)),
     permissions_create = (\<lambda>file_id ty role email w.
        (Inr (), w\<lparr>mw_grants := mw_grants w @ [email]\<rparr>))\<rparr>"

definition mem_azure :: "mem_world azure_sdk" where
  "mem_azure = \<lparr>
     from_connection_string = (\<lambda>c w. (Inr (), w)),
     container_exists = (\<lambda>c w. (Inr True, w)),
     create_container = (\<lambda>c w. (Inr (), w)),
     open_rb = (\<lambda>src w.
        if src \<in> set (mw_paths w) then (Inr ''bytes'', w) else (Inl no_such_file, w)),
     upload_blob = (\<lambda>c b dat overwrite w. (Inr (), w\<lparr>mw_blobs := b # mw_blobs w\<rparr>)),
     blob_url = (\<lambda>conn c b. ''https://test.blob.core.windows.net/'' @ c @ ''/'' @ b),
     blob_exists = (\<lambda>c b w. (Inr (b \<in> set (mw_blobs w)), w))\<rparr>"

definition mem_env :: "mem_world env" where
  "mem_env = \<lparr>env_os = mem_os, env_minio = mem_minio, env_drive = mem_drive, env_azure = mem_azure\<rparr>"

definition mem_world0 :: mem_world where
  "mem_world0 = \<lparr>
     mw_paths = [''/tmp/src.jpg''],
     mw_objects = [\<lparr>object_name = ''database.csv'', is_dir = False\<rparr>,
                   \<lparr>object_name = ''data/'', is_dir = True\<rparr>,
                   \<lparr>object_name = ''data/x'', is_dir = False\<rparr>],
     mw_files = [\<lparr>df_id = ''id-old'', df_name = ''old.jpg'', df_webViewLink = None\<rparr>,
                 \<lparr>df_id = ''id-a'', df_name = ''a.jpg'',
                  df_webViewLink = Some ''https://drive.google.com/file/d/id-a/view''\<rparr>],
     mw_grants = [''ann@example.com''],
     mw_blobs = []\<rparr>"

definition mem_config :: "py_value \<Rightarrow> config" where
  "mem_config kind = \<lparr>
     cfg_driver = kind,
     cfg_local_dest = ''/srv/media'',
     cfg_minio = \<lparr>mc_endpoint = ''localhost:9000'', mc_access_key = ''key'', mc_secret_key = ''secret'',
                   mc_secure = False, mc_region = None, mc_bucket = ''media'',
                   mc_bucket_subpath = Some ''/data/''\<rparr>,
     cfg_google_drive = \<lparr>gc_service_account_file = ''sa.json'', gc_folder = ''media'',
                          gc_share_with = ShareList [''ann@example.com'', ''not an address'', ''bob@example.com'']\<rparr>,
     cfg_azure = \<lparr>ac_connection_string = ''AccountName=test'', ac_container = ''media''\<rparr>\<rparr>"

definition mem_local_driver :: LocalDriver where
  "mem_local_driver = \<lparr>ld_dest = ''/srv/media''\<rparr>"

definition mem_minio_driver :: MinioDriver where
  "mem_minio_driver = \<lparr>md_bucket = ''media'', md_bucket_subpath = Some ''data'',
     md_base_url = ''http://localhost:9000/media''\<rparr>"

definition mem_azure_driver :: AzureDriver where
  "mem_azure_driver = \<lparr>az_connection_string = ''AccountName=test'', az_container_name = ''media''\<rparr>"

section \<open>Properties\<close>

subsection \<open>Helper lemmas\<close>

lemma invoke_pair: "invoke ev f (log, w) = (fst (f w), (log @ [ev], snd (f w)))"
  by (simp add: invoke_def split: prod.splits)

lemma truthy_py_eq_member: "truthy (py_eq_member v d) = (v = PyStr (DriverType_value d))"
  by (cases v) auto

subsection \<open>DriverType equality and the factory\<close>

text \<open>
  C8. For every member \<open>d\<close> and every string \<open>s\<close>, \<open>d == s\<close> (and \<open>s == d\<close>, which
  Python resolves by the reflected call) is the boolean \<open>True\<close> exactly when \<open>s\<close> is the
  value of \<open>d\<close>, and the boolean \<open>False\<close> otherwise.
\<close>

theorem DriverType_eq_string:
  "DriverType_eq d (PyStr s) = PyBool (s = DriverType_value d)
   \<and> py_eq_member (PyStr s) d = PyBool (s = DriverType_value d)
   \<and> truthy (DriverType_eq d (PyStr s)) = (s = DriverType_value d)"
  by auto

theorem DriverType_eq_string_witness:
  "DriverType_eq LOCAL (PyStr ''local'') = PyBool True
   \<and> py_eq_member (PyStr ''local'') LOCAL = PyBool True
   \<and> DriverType_eq LOCAL (PyStr ''minio'') = PyBool False"
  using DriverType_eq_string [of LOCAL "''local''"] DriverType_eq_string [of LOCAL "''minio''"]
  by simp

text \<open>
  C9. \<open>DriverType.__eq__\<close> returns \<open>None\<close> whenever the comparand is not a string.
  So the comparison of a member with itself is \<open>None\<close>, which is not true, and
  \<open>create_driver\<close> returns \<open>None\<close>, without a call to any backend, whenever
  \<open>config.driver\<close> holds a member of the enumeration.
\<close>

theorem DriverType_eq_not_string:
  assumes "\<forall>s. v \<noteq> PyStr s"
  shows "DriverType_eq d v = PyNone
     \<and> py_eq_member (PyEnum d) d = PyNone
     \<and> \<not> truthy (py_eq_member (PyEnum d) d)
     \<and> create_driver env (cfg\<lparr>cfg_driver := PyEnum d\<rparr>) s = (Inr None, s)"
proof -
  have "DriverType_eq d v = PyNone"
    using assms by (cases v) auto
  moreover have "create_driver env (cfg\<lparr>cfg_driver := PyEnum d\<rparr>) s = (Inr None, s)"
    by (simp add: create_driver_def)
  ultimately show ?thesis by simp
qed

theorem DriverType_eq_not_string_witness:
  "DriverType_eq LOCAL (PyEnum LOCAL) = PyNone
   \<and> py_eq_member (PyEnum LOCAL) LOCAL = PyNone
   \<and> create_driver mem_env (mem_config (PyEnum LOCAL)) ([], mem_world0) = (Inr None, ([], mem_world0))"
  using DriverType_eq_not_string [of "PyEnum LOCAL" LOCAL mem_env "mem_config (PyStr [])" "([], mem_world0)"]
  by (simp add: mem_config_def)

text \<open>
  C7. \<open>create_driver\<close> runs the constructor of exactly the driver whose kind
  \<open>config.driver\<close> names as a string, and returns that driver (or the constructor's
  exception); for every other value of \<open>config.driver\<close> it returns \<open>None\<close> and issues
  no call.
\<close>

theorem create_driver_selects:
  "create_driver env cfg s =
     (if cfg_driver cfg = PyStr ''local''
      then and_then (LocalDriver_init (env_os env) cfg s) (\<lambda>d s1. (Inr (Some (LocalD d)), s1))
      else if cfg_driver cfg = PyStr ''minio''
      then and_then (MinioDriver_init (env_minio env) cfg s) (\<lambda>d s1. (Inr (Some (MinioD d)), s1))
      else if cfg_driver cfg = PyStr ''google_drive''
      then and_then (GoogleDriveDriver_init (env_drive env) cfg s) (\<lambda>d s1. (Inr (Some (GoogleDriveD d)), s1))
      else if cfg_driver cfg = PyStr ''azure''
      then and_then (AzureDriver_init (env_azure env) cfg s) (\<lambda>d s1. (Inr (Some (AzureD d)), s1))
      else (Inr None, s))"
  unfolding create_driver_def truthy_py_eq_member by simp

theorem create_driver_selects_witness:
  "fst (create_driver mem_env (mem_config (PyStr ''azure'')) ([], mem_world0))
     = Inr (Some (AzureD mem_azure_driver))
   \<and> fst (snd (create_driver mem_env (mem_config (PyStr ''azure'')) ([], mem_world0)))
     = [FromConnectionString ''AccountName=test'', ContainerExists ''media'']
   \<and> create_driver mem_env (mem_config (PyStr ''ftp'')) ([], mem_world0) = (Inr None, ([], mem_world0))"
proof -
  have a: "AzureDriver_init mem_azure (mem_config (PyStr ''azure'')) ([], mem_world0)
             = (Inr mem_azure_driver,
                ([FromConnectionString ''AccountName=test'', ContainerExists ''media''], mem_world0))"
    by (simp add: AzureDriver_init_def mem_config_def mem_azure_def mem_azure_driver_def
          invoke_pair and_then_def try_except_def Let_def)
  have e: "env_azure mem_env = mem_azure"
    by (simp add: mem_env_def)
  have k: "cfg_driver (mem_config (PyStr ''azure'')) = PyStr ''azure''"
          "cfg_driver (mem_config (PyStr ''ftp'')) = PyStr ''ftp''"
    by (simp_all add: mem_config_def)
  show ?thesis
    using create_driver_selects [of mem_env "mem_config (PyStr ''azure'')" "([], mem_world0)"]
          create_driver_selects [of mem_env "mem_config (PyStr ''ftp'')" "([], mem_world0)"]
    unfolding k e a by (simp add: and_then_def)
qed

subsection \<open>MinioDriver\<close>

text \<open>
  C5. \<open>MinioDriver.file_exists\<close> issues one \<open>stat_object\<close> on the scoped key and
  nothing else, whatever the answer. It returns \<open>True\<close> exactly when the query
  succeeds, \<open>False\<close> exactly when the query raises an \<open>S3Error\<close> with the code
  \<open>NoSuchKey\<close>, and raises \<open>DriverError\<close> for an \<open>S3Error\<close> with any other code.
\<close>

theorem Minio_file_exists_point_query:
  assumes "stat_object cl (md_bucket self) (minio_key self p) w = (r, w')"
  shows "snd (Minio_file_exists cl self p (log, w))
           = (log @ [StatObject (md_bucket self) (minio_key self p)], w')
     \<and> (fst (Minio_file_exists cl self p (log, w)) = Inr True) = (r = Inr ())
     \<and> (fst (Minio_file_exists cl self p (log, w)) = Inr False) = (\<exists>m. r = Inl (S3Error ''NoSuchKey'' m))
     \<and> (\<forall>code m. r = Inl (S3Error code m) \<and> code \<noteq> ''NoSuchKey'' \<longrightarrow>
           fst (Minio_file_exists cl self p (log, w))
             = Inl (DriverError (''MinIO driver exists error: '' @ m)))"
  using assms
  by (auto simp: Minio_file_exists_def invoke_pair Let_def split: sum.splits py_exn.splits)

theorem Minio_file_exists_point_query_witness:
  "snd (Minio_file_exists mem_minio mem_minio_driver ''y'' ([], mem_world0))
     = ([StatObject ''media'' ''data/y''], mem_world0)
   \<and> fst (Minio_file_exists mem_minio mem_minio_driver ''y'' ([], mem_world0)) = Inr False
   \<and> fst (Minio_file_exists mem_minio mem_minio_driver ''x'' ([], mem_world0)) = Inr True"
proof -
  have k: "minio_key mem_minio_driver ''y'' = ''data/y''" "minio_key mem_minio_driver ''x'' = ''data/x''"
          "md_bucket mem_minio_driver = ''media''"
    by (simp_all add: minio_key_def mem_minio_driver_def)
  have a: "stat_object mem_minio ''media'' ''data/y'' mem_world0
         = (Inl (S3Error ''NoSuchKey'' ''S3 operation failed; code: NoSuchKey''), mem_world0)"
    by (simp add: mem_minio_def mem_world0_def)
  have b: "stat_object mem_minio ''media'' ''data/x'' mem_world0 = (Inr (), mem_world0)"
    by (simp add: mem_minio_def mem_world0_def)
  show ?thesis
    using Minio_file_exists_point_query [of mem_minio mem_minio_driver "''y''" mem_world0 _ mem_world0 "[]"]
          Minio_file_exists_point_query [of mem_minio mem_minio_driver "''x''" mem_world0 _ mem_world0 "[]"]
    unfolding k using a b by simp
qed

lemma minio_yield_eq:
  "minio_yield self objs = map (\<lambda>obj. minio_strip self (object_name obj)) (filter (\<lambda>obj. \<not> is_dir obj) objs)"
  by (induction objs) auto

lemma minio_strip_scoped:
  assumes "md_bucket_subpath self = Some sc" "sc \<noteq> []" "prefix (sc @ ''/'') name"
  shows "minio_strip self name = drop (length sc + 1) name"
  using assms by (simp add: minio_strip_def)

lemma prefix_app3: "prefix (sc @ ''/'' @ pre) name \<Longrightarrow> prefix (sc @ ''/'') name"
  by (metis append.assoc prefix_def)

lemma minio_effective_prefix_scoped:
  assumes "md_bucket_subpath self = Some sc" "sc \<noteq> []" "\<not> suffix ''/'' sc"
  shows "minio_effective_prefix self pfx = Some (sc @ ''/'' @ (case pfx of None \<Rightarrow> [] | Some p \<Rightarrow> p))"
  using assms by (cases pfx) (auto simp: minio_effective_prefix_def Let_def)

lemma no_trailing: "\<not> suffix [c] (rev (dropWhile (\<lambda>x. x = c) xs))"
proof
  assume "suffix [c] (rev (dropWhile (\<lambda>x. x = c) xs))"
  then obtain zs where "rev (dropWhile (\<lambda>x. x = c) xs) = zs @ [c]"
    unfolding suffix_def by blast
  then have "dropWhile (\<lambda>x. x = c) xs = rev (zs @ [c])"
    by (metis rev_rev_ident)
  then have d: "dropWhile (\<lambda>x. x = c) xs = c # rev zs"
    by simp
  then have "dropWhile (\<lambda>x. x = c) xs \<noteq> []" by simp
  then have "\<not> (hd (dropWhile (\<lambda>x. x = c) xs) = c)"
    by (rule hd_dropWhile)
  then show False using d by simp
qed

lemma strip_slashes_no_trailing: "\<not> suffix ''/'' (strip_slashes s)"
  unfolding strip_slashes_def by (rule no_trailing)

lemma minio_subpath_no_trailing:
  assumes h: "minio_subpath mc = Some sc'"
  shows "\<not> suffix ''/'' sc'"
proof (cases "mc_bucket_subpath mc")
  case None
  then show ?thesis using h by (simp add: minio_subpath_def)
next
  case (Some sp)
  then have "sc' = strip_slashes sp" using h by (simp add: minio_subpath_def split: if_splits)
  then show ?thesis using strip_slashes_no_trailing by simp
qed

lemma scoped_names:
  "set (map (\<lambda>obj. drop (length sc + 1) (object_name obj))
          (filter (\<lambda>obj. \<not> is_dir obj \<and> prefix (sc @ ''/'' @ pre) (object_name obj)) contents))
     = {n. prefix pre n \<and> (\<exists>obj \<in> set contents. \<not> is_dir obj \<and> object_name obj = sc @ ''/'' @ n)}"
  (is "?L = ?R")
proof (rule set_eqI)
  fix n
  let ?P = "\<lambda>obj. prefix (sc @ ''/'' @ pre) (object_name obj)"
  show "n \<in> ?L \<longleftrightarrow> n \<in> ?R"
  proof
    assume "n \<in> ?L"
    then obtain obj where o: "obj \<in> set contents" "\<not> is_dir obj" "?P obj"
        and n: "n = drop (length sc + 1) (object_name obj)" by auto
    from o(3) obtain r where r: "object_name obj = sc @ ''/'' @ pre @ r"
      by (auto simp: prefix_def)
    then have n': "n = pre @ r" using n by simp
    have "prefix pre n" using n' by simp
    moreover have "object_name obj = sc @ ''/'' @ n" using r n' by simp
    ultimately show "n \<in> ?R" using o(1,2) by blast
  next
    assume "n \<in> ?R"
    then obtain obj where o: "obj \<in> set contents" "\<not> is_dir obj" "object_name obj = sc @ ''/'' @ n"
        and p: "prefix pre n" by blast
    have P: "?P obj" using o(3) p by simp
    have d: "drop (length sc + 1) (object_name obj) = n" using o(3) by simp
    have "obj \<in> set (filter (\<lambda>obj. \<not> is_dir obj \<and> ?P obj) contents)" using o(1,2) P by simp
    then have "(\<lambda>obj. drop (length sc + 1) (object_name obj)) obj \<in> ?L" unfolding set_map by (rule imageI)
    then show "n \<in> ?L" using d by simp
  qed
qed

text \<open>
  C2. For a driver with a bucket subpath scope \<open>sc\<close> (not empty, no trailing slash,
  as the constructor leaves it) and a backend that answers a listing with exactly the
  objects of the bucket whose key starts with the requested prefix: \<open>list_files\<close>
  issues one listing, for the prefix \<open>sc/\<close> followed by the caller's prefix, skips
  the directory markers and yields every other key with \<open>sc/\<close> cut off. The names
  yielded are exactly the \<open>n\<close> for which the object \<open>sc/n\<close> exists and is no
  directory marker: a sibling key such as \<open>database.csv\<close> for the scope \<open>data\<close>
  yields nothing.
\<close>

theorem Minio_list_files_scoped:
  assumes "md_bucket_subpath self = Some sc" and "sc \<noteq> []" and "\<not> suffix ''/'' sc"
      and "pre = (case pfx of None \<Rightarrow> [] | Some p \<Rightarrow> p)"
      and "list_objects cl (md_bucket self) (Some (sc @ ''/'' @ pre)) True w
             = ((filter (\<lambda>obj. prefix (sc @ ''/'' @ pre) (object_name obj)) contents, None), w')"
  shows "Minio_list_files cl self pfx (log, w)
           = ((map (\<lambda>obj. drop (length sc + 1) (object_name obj))
                 (filter (\<lambda>obj. \<not> is_dir obj \<and> prefix (sc @ ''/'' @ pre) (object_name obj)) contents), None),
              (log @ [ListObjects (md_bucket self) (Some (sc @ ''/'' @ pre)) True], w'))
     \<and> set (fst (fst (Minio_list_files cl self pfx (log, w))))
           = {n. prefix pre n \<and> (\<exists>obj \<in> set contents. \<not> is_dir obj \<and> object_name obj = sc @ ''/'' @ n)}
     \<and> (\<forall>mc sc'. minio_subpath mc = Some sc' \<longrightarrow> \<not> suffix ''/'' sc')"
proof -
  let ?P = "\<lambda>obj. prefix (sc @ ''/'' @ pre) (object_name obj)"
  have eff: "minio_effective_prefix self pfx = Some (sc @ ''/'' @ pre)"
    using minio_effective_prefix_scoped[OF assms(1-3)] assms(4) by simp
  have f: "filter (\<lambda>obj. \<not> is_dir obj) (filter ?P contents) = filter (\<lambda>obj. \<not> is_dir obj \<and> ?P obj) contents"
    by (induction contents) simp_all
  have m: "map (\<lambda>obj. minio_strip self (object_name obj)) (filter (\<lambda>obj. \<not> is_dir obj \<and> ?P obj) contents)
      = map (\<lambda>obj. drop (length sc + 1) (object_name obj)) (filter (\<lambda>obj. \<not> is_dir obj \<and> ?P obj) contents)"
  proof (rule map_cong[OF refl])
    fix obj assume "obj \<in> set (filter (\<lambda>obj. \<not> is_dir obj \<and> ?P obj) contents)"
    then have "?P obj" by simp
    then have "prefix (sc @ ''/'') (object_name obj)" by (rule prefix_app3)
    then show "minio_strip self (object_name obj) = drop (length sc + 1) (object_name obj)"
      by (rule minio_strip_scoped[OF assms(1,2)])
  qed
  have main: "Minio_list_files cl self pfx (log, w)
           = ((map (\<lambda>obj. drop (length sc + 1) (object_name obj))
                 (filter (\<lambda>obj. \<not> is_dir obj \<and> ?P obj) contents), None),
              (log @ [ListObjects (md_bucket self) (Some (sc @ ''/'' @ pre)) True], w'))"
    unfolding Minio_list_files_def Let_def eff invoke_pair assms(5) minio_yield_eq fst_conv snd_conv f m
    by (simp only: prod.case option.map f m)
  show ?thesis
    unfolding main fst_conv scoped_names using minio_subpath_no_trailing by blast
qed

theorem Minio_list_files_scoped_witness:
  "Minio_list_files mem_minio mem_minio_driver None ([], mem_world0)
     = (([''x''], None), ([ListObjects ''media'' (Some ''data/'') True], mem_world0))"
proof -
  have 1: "md_bucket_subpath mem_minio_driver = Some ''data''"
    by (simp add: mem_minio_driver_def)
  have 2: "list_objects mem_minio (md_bucket mem_minio_driver) (Some (''data'' @ ''/'' @ [])) True mem_world0
      = ((filter (\<lambda>obj. prefix (''data'' @ ''/'' @ []) (object_name obj)) (mw_objects mem_world0), None), mem_world0)"
    by (simp add: mem_minio_def)
  from Minio_list_files_scoped [OF 1 _ _ _ 2, of None "[]"]
  show ?thesis
    by (simp add: mem_world0_def mem_minio_driver_def suffix_to_prefix)
qed

subsection \<open>Failures of upload_file\<close>

lemma try_except_Inl: "try_except c pre (Inl e, s) = (Inl (wrap_exn c pre e), s)"
  by (simp add: try_except_def)

lemma try_except_Inr: "try_except c pre (Inr v, s) = (Inr v, s)"
  by (simp add: try_except_def)

lemma and_then_Inl: "and_then (Inl e, s) f = (Inl e, s)"
  by (simp add: and_then_def)

lemma and_then_Inr: "and_then (Inr v, s) f = f v s"
  by (simp add: and_then_def)

lemmas run_simps = try_except_Inl try_except_Inr and_then_Inl and_then_Inr invoke_pair

lemma Local_upload_dir_fails:
  assumes "ensure_dir os (os_path_dirname (os_path_join (ld_dest ld) p)) s = (Inl e, s1)"
  shows "Local_upload_file os ld src p s
           = (Inl (if is_OSError e then DriverError (''Local driver error: '' @ exn_str e) else e), s1)"
  using assms by (simp add: Local_upload_file_def Let_def run_simps wrap_exn_def)

lemma Local_upload_copy_fails:
  assumes "ensure_dir os (os_path_dirname (os_path_join (ld_dest ld) p)) s = (Inr (), (log1, w1))"
      and "shutil_copyfile os src (os_path_join (ld_dest ld) p) w1 = (Inl e, w2)"
  shows "Local_upload_file os ld src p s
           = (Inl (if is_OSError e then DriverError (''Local driver error: '' @ exn_str e) else e),
              (log1 @ [ShutilCopyfile src (os_path_join (ld_dest ld) p)], w2))"
  using assms by (simp add: Local_upload_file_def Let_def run_simps wrap_exn_def)

lemma Minio_upload_fails:
  assumes "fput_object cl (md_bucket md) (minio_key md p) src w = (Inl e, w')"
  shows "Minio_upload_file cl md src p (log, w)
           = (Inl (if is_S3Error e then DriverError (''MinIO driver error: '' @ exn_str e) else e),
              (log @ [FPutObject (md_bucket md) (minio_key md p) src], w'))"
  using assms by (simp add: Minio_upload_file_def Let_def run_simps wrap_exn_def)

lemma Azure_upload_open_fails:
  assumes "open_rb az src w = (Inl e, w')"
  shows "Azure_upload_file az ad src p (log, w)
           = (Inl (if is_AzureError e then DriverError (''Azure driver error: '' @ exn_str e) else e),
              (log @ [OpenRb src], w'))"
  using assms by (simp add: Azure_upload_file_def Let_def run_simps wrap_exn_def)

lemma Azure_upload_blob_fails:
  assumes "open_rb az src w = (Inr dat, w1)"
      and "upload_blob az (az_container_name ad) p dat True w1 = (Inl e, w')"
  shows "Azure_upload_file az ad src p (log, w)
           = (Inl (if is_AzureError e then DriverError (''Azure driver error: '' @ exn_str e) else e),
              (log @ [OpenRb src, UploadBlob (az_container_name ad) p dat True], w'))"
  using assms by (simp add: Azure_upload_file_def Let_def run_simps wrap_exn_def)

lemma Google_upload_media_fails:
  assumes "media_file_upload sv src w = (Inl e, w')"
  shows "Google_upload_file sv gd src p (log, w)
           = (Inl (DriverError (''GoogleDrive driver error: '' @ exn_str e)), (log @ [MediaFileUploadNew src], w'))"
  using assms by (simp add: Google_upload_file_def Let_def run_simps wrap_exn_def any_Exception_def)

lemma Google_upload_create_fails:
  assumes "media_file_upload sv src w = (Inr (), w1)"
      and "files_create sv p None [gd_folder_id gd] (Some src) ''id'' w1 = (Inl e, w')"
  shows "Google_upload_file sv gd src p (log, w)
           = (Inl (DriverError (''GoogleDrive driver error: '' @ exn_str e)),
              (log @ [MediaFileUploadNew src, FilesCreate p None [gd_folder_id gd] (Some src) ''id''], w'))"
  using assms by (simp add: Google_upload_file_def Let_def run_simps wrap_exn_def any_Exception_def)

lemma Google_upload_link_fails:
  assumes "media_file_upload sv src w = (Inr (), w1)"
      and "files_create sv p None [gd_folder_id gd] (Some src) ''id'' w1 = (Inr file_id, w2)"
      and "files_get sv file_id ''webViewLink'' w2 = (Inl e, w')"
  shows "Google_upload_file sv gd src p (log, w)
           = (Inl (DriverError (''Google Drive file link error: '' @ exn_str e)),
              (log @ [MediaFileUploadNew src, FilesCreate p None [gd_folder_id gd] (Some src) ''id'',
                      FilesGet file_id ''webViewLink''], w'))"
  using assms by (simp add: Google_upload_file_def gd_file_link_def Let_def run_simps wrap_exn_def any_Exception_def)

lemma Google_upload_raises_DriverError:
  assumes "Google_upload_file sv gd src p s = (Inl e, s')"
  shows "is_DriverError e"
  using assms
  by (auto simp: Google_upload_file_def gd_file_link_def and_then_def try_except_def wrap_exn_def any_Exception_def
           split: prod.splits sum.splits)

lemma Local_upload_raises:
  assumes "Local_upload_file os ld src p s = (Inl e, s')"
  shows "\<not> is_OSError e"
  using assms
  by (auto simp: Local_upload_file_def Let_def and_then_def try_except_def wrap_exn_def
           split: prod.splits sum.splits if_splits)

lemma Minio_upload_raises:
  assumes "Minio_upload_file cl md src p s = (Inl e, s')"
  shows "\<not> is_S3Error e"
  using assms
  by (auto simp: Minio_upload_file_def Let_def and_then_def try_except_def wrap_exn_def
           split: prod.splits sum.splits if_splits)

lemma Azure_upload_raises:
  assumes "Azure_upload_file az ad src p s = (Inl e, s')"
  shows "\<not> is_AzureError e"
  using assms
  by (auto simp: Azure_upload_file_def Let_def and_then_def try_except_def wrap_exn_def
           split: prod.splits sum.splits if_splits)

text \<open>
  C3 as stated does not hold: the \<open>OSError\<close> of a source file that cannot be read
  leaves \<open>MinioDriver.upload_file\<close> and \<open>AzureDriver.upload_file\<close> unwrapped.
\<close>

theorem upload_file_unwrapped_counterexample:
  "fst (Minio_upload_file mem_minio mem_minio_driver ''/tmp/missing.jpg'' ''a.jpg'' ([], mem_world0)) = Inl no_such_file
   \<and> fst (Azure_upload_file mem_azure mem_azure_driver ''/tmp/missing.jpg'' ''a.jpg'' ([], mem_world0)) = Inl no_such_file
   \<and> is_OSError no_such_file \<and> \<not> is_DriverError no_such_file"
  by (simp add: Minio_upload_file_def Azure_upload_file_def Let_def run_simps wrap_exn_def
        mem_minio_def mem_azure_def mem_world0_def mem_minio_driver_def mem_azure_driver_def no_such_file_def minio_key_def)


text \<open>
  C3 (as amended). Each \<open>upload_file\<close> replaces an exception of the family its
  \<open>except\<close> clause names by a \<open>DriverError\<close> whose message is the driver's prefix
  followed by \<open>str(e)\<close> of the cause: \<open>OSError\<close> (with \<open>SameFileError\<close>) in
  \<open>LocalDriver\<close>, \<open>S3Error\<close> in \<open>MinioDriver\<close>, every exception in
  \<open>GoogleDriveDriver\<close>, \<open>AzureError\<close> in \<open>AzureDriver\<close>. An exception outside
  the family leaves the call as it is. So no exception of the named family ever escapes,
  and every exception of \<open>GoogleDriveDriver.upload_file\<close> is a \<open>DriverError\<close>.
\<close>

theorem upload_file_wraps_declared_family:
  "(\<forall>e s1. ensure_dir os (os_path_dirname (os_path_join (ld_dest ld) p)) s = (Inl e, s1) \<longrightarrow>
       Local_upload_file os ld src p s
         = (Inl (if is_OSError e then DriverError (''Local driver error: '' @ exn_str e) else e), s1))
   \<and> (\<forall>e log1 w1 w2.
         ensure_dir os (os_path_dirname (os_path_join (ld_dest ld) p)) s = (Inr (), (log1, w1)) \<and>
         shutil_copyfile os src (os_path_join (ld_dest ld) p) w1 = (Inl e, w2) \<longrightarrow>
       Local_upload_file os ld src p s
         = (Inl (if is_OSError e then DriverError (''Local driver error: '' @ exn_str e) else e),
            (log1 @ [ShutilCopyfile src (os_path_join (ld_dest ld) p)], w2)))
   \<and> (\<forall>e s'. Local_upload_file os ld src p s = (Inl e, s') \<longrightarrow> \<not> is_OSError e)
   \<and> (\<forall>e w'. fput_object cl (md_bucket md) (minio_key md p) src w = (Inl e, w') \<longrightarrow>
       Minio_upload_file cl md src p (log, w)
         = (Inl (if is_S3Error e then DriverError (''MinIO driver error: '' @ exn_str e) else e),
            (log @ [FPutObject (md_bucket md) (minio_key md p) src], w')))
   \<and> (\<forall>e s'. Minio_upload_file cl md src p s = (Inl e, s') \<longrightarrow> \<not> is_S3Error e)
   \<and> (\<forall>e w'. media_file_upload sv src w = (Inl e, w') \<longrightarrow>
       Google_upload_file sv gd src p (log, w)
         = (Inl (DriverError (''GoogleDrive driver error: '' @ exn_str e)),
            (log @ [MediaFileUploadNew src], w')))
   \<and> (\<forall>e w1 w'.
         media_file_upload sv src w = (Inr (), w1) \<and>
         files_create sv p None [gd_folder_id gd] (Some src) ''id'' w1 = (Inl e, w') \<longrightarrow>
       Google_upload_file sv gd src p (log, w)
         = (Inl (DriverError (''GoogleDrive driver error: '' @ exn_str e)),
            (log @ [MediaFileUploadNew src, FilesCreate p None [gd_folder_id gd] (Some src) ''id''], w')))
   \<and> (\<forall>e w1 w2 w' file_id.
         media_file_upload sv src w = (Inr (), w1) \<and>
         files_create sv p None [gd_folder_id gd] (Some src) ''id'' w1 = (Inr file_id, w2) \<and>
         files_get sv file_id ''webViewLink'' w2 = (Inl e, w') \<longrightarrow>
       Google_upload_file sv gd src p (log, w)
         = (Inl (DriverError (''Google Drive file link error: '' @ exn_str e)),
            (log @ [MediaFileUploadNew src, FilesCreate p None [gd_folder_id gd] (Some src) ''id'',
                    FilesGet file_id ''webViewLink''], w')))
   \<and> (\<forall>e s'. Google_upload_file sv gd src p s = (Inl e, s') \<longrightarrow> is_DriverError e)
   \<and> (\<forall>e w'. open_rb az src w = (Inl e, w') \<longrightarrow>
       Azure_upload_file az ad src p (log, w)
         = (Inl (if is_AzureError e then DriverError (''Azure driver error: '' @ exn_str e) else e),
            (log @ [OpenRb src], w')))
   \<and> (\<forall>e dat w1 w'.
         open_rb az src w = (Inr dat, w1) \<and>
         upload_blob az (az_container_name ad) p dat True w1 = (Inl e, w') \<longrightarrow>
       Azure_upload_file az ad src p (log, w)
         = (Inl (if is_AzureError e then DriverError (''Azure driver error: '' @ exn_str e) else e),
            (log @ [OpenRb src, UploadBlob (az_container_name ad) p dat True], w')))
   \<and> (\<forall>e s'. Azure_upload_file az ad src p s = (Inl e, s') \<longrightarrow> \<not> is_AzureError e)"
  by (intro conjI allI impI; (elim conjE)?;
      (rule Local_upload_dir_fails Local_upload_copy_fails Local_upload_raises
            Minio_upload_fails Minio_upload_raises
            Google_upload_media_fails Google_upload_create_fails Google_upload_link_fails
            Google_upload_raises_DriverError
            Azure_upload_open_fails Azure_upload_blob_fails Azure_upload_raises; assumption))

theorem upload_file_wraps_declared_family_witness:
  "fst (Local_upload_file mem_os mem_local_driver ''/tmp/missing.jpg'' ''a.jpg'' ([], mem_world0))
     = Inl (DriverError ''Local driver error: [Errno 2] No such file or directory'')
   \<and> fst (Google_upload_file mem_drive mem_gd ''/tmp/missing.jpg'' ''a.jpg'' ([], mem_world0))
     = Inl (DriverError ''GoogleDrive driver error: [Errno 2] No such file or directory'')
   \<and> fst (Minio_upload_file mem_minio mem_minio_driver ''/tmp/missing.jpg'' ''a.jpg'' ([], mem_world0))
     = Inl (OSError ''[Errno 2] No such file or directory'')"
proof -
  have d: "os_path_join (ld_dest mem_local_driver) ''a.jpg'' = ''/srv/media/a.jpg''"
          "os_path_dirname ''/srv/media/a.jpg'' = ''/srv/media''"
    by (simp_all add: os_path_join_def os_path_dirname_def mem_local_driver_def suffix_to_prefix)
  have 1: "ensure_dir mem_os ''/srv/media'' ([], mem_world0)
             = (Inr (), ([OsPathExists ''/srv/media'', OsMakedirs ''/srv/media''],
                         mem_world0\<lparr>mw_paths := ''/srv/media'' # mw_paths mem_world0\<rparr>))"
    by (simp add: ensure_dir_def invoke_pair mem_os_def mem_world0_def)
  have 2: "shutil_copyfile mem_os ''/tmp/missing.jpg'' ''/srv/media/a.jpg''
             (mem_world0\<lparr>mw_paths := ''/srv/media'' # mw_paths mem_world0\<rparr>)
             = (Inl no_such_file, mem_world0\<lparr>mw_paths := ''/srv/media'' # mw_paths mem_world0\<rparr>)"
    by (simp add: mem_os_def mem_world0_def)
  have 3: "media_file_upload mem_drive ''/tmp/missing.jpg'' mem_world0 = (Inl no_such_file, mem_world0)"
    by (simp add: mem_drive_def mem_world0_def)
  have 4: "fput_object mem_minio (md_bucket mem_minio_driver) (minio_key mem_minio_driver ''a.jpg'')
             ''/tmp/missing.jpg'' mem_world0 = (Inl no_such_file, mem_world0)"
    by (simp add: mem_minio_def mem_world0_def)
  note t = upload_file_wraps_declared_family
             [of mem_os mem_local_driver "''a.jpg''" "([], mem_world0)" "''/tmp/missing.jpg''"
                 mem_minio mem_minio_driver mem_world0 "[]" mem_drive mem_gd]
  show ?thesis
    using t 1 2 3 4 unfolding d by (simp add: no_such_file_def)
qed

subsection \<open>GoogleDriveDriver: the listing and the URL cache\<close>

lemma cache_of_upd [simp]: "cache_of (self\<lparr>gd_url_cache := Some c\<rparr>) = c"
  by (simp add: cache_of_def)

lemma listedI: "files_list sv q fl tok ps w = (Inr page, w') \<Longrightarrow> entry \<in> set (fp_files page) \<Longrightarrow> listed sv entry"
  unfolding listed_def by blast

lemma invoke_split:
  "invoke ev f s = (r, s') \<Longrightarrow> f (snd s) = (r, snd s') \<and> fst s' = fst s @ [ev]"
  by (cases s) (auto simp: invoke_pair intro: prod_eqI)

lemma gd_advance_yield:
  "gd_advance n sv self pfx pos s = (Yielded name, self', gen', s') \<Longrightarrow>
     \<exists>entry. df_name entry = name \<and> matches_prefix pfx name \<and>
        (entry \<in> set (pos_pending pos) \<or> listed sv entry) \<and>
        self' = self\<lparr>gd_url_cache := Some ((cache_of self)(name \<mapsto> link_or_empty entry))\<rparr>"
proof (induction n sv self pfx pos s rule: gd_advance.induct)
  case (1 n sv self pfx f fs tok s)
  show ?case
  proof (cases "matches_prefix pfx (df_name f)")
    case True
    with "1.prems" have "name = df_name f"
        "self' = self\<lparr>gd_url_cache := Some ((cache_of self)(df_name f \<mapsto> link_or_empty f))\<rparr>"
      by (auto simp: Let_def)
    moreover have "f \<in> set (pos_pending (InFor (f # fs) tok)) \<or> listed sv f" by simp
    ultimately show ?thesis using True by blast
  next
    case False
    with "1.prems" have "gd_advance n sv self pfx (InFor fs tok) s = (Yielded name, self', gen', s')"
      by (simp add: Let_def)
    from "1.IH"[OF refl False this] obtain entry where e:
      "df_name entry = name" "matches_prefix pfx name"
      "entry \<in> set (pos_pending (InFor fs tok)) \<or> listed sv entry"
      "self' = self\<lparr>gd_url_cache := Some ((cache_of self)(name \<mapsto> link_or_empty entry))\<rparr>"
      by blast
    from e(3) have "entry \<in> set (pos_pending (InFor (f # fs) tok)) \<or> listed sv entry" by auto
    with e(1,2,4) show ?thesis by blast
  qed
next
  case (2 n sv self pfx tok s)
  show ?case
  proof (cases "truthy_str tok")
    case False
    with "2.prems" show ?thesis by auto
  next
    case True
    with "2.prems" have "gd_advance n sv self pfx (AtFetch tok) s = (Yielded name, self', gen', s')"
      by simp
    from "2.IH"[OF _ this] True obtain entry where e:
      "df_name entry = name" "matches_prefix pfx name"
      "entry \<in> set (pos_pending (AtFetch tok)) \<or> listed sv entry"
      "self' = self\<lparr>gd_url_cache := Some ((cache_of self)(name \<mapsto> link_or_empty entry))\<rparr>"
      by blast
    from e(3) have "entry \<in> set (pos_pending (InFor [] tok)) \<or> listed sv entry" by simp
    with e(1,2,4) show ?thesis by blast
  qed
next
  case (3 sv self pfx tok s)
  then show ?case by auto
next
  case (4 n sv self pfx tok s)
  obtain res s1 where inv: "invoke (FilesList (list_query self) list_fields tok (Some 1000))
             (files_list sv (list_query self) list_fields tok (Some 1000)) s = (res, s1)"
    by (cases "invoke (FilesList (list_query self) list_fields tok (Some 1000))
             (files_list sv (list_query self) list_fields tok (Some 1000)) s") auto
  show ?case
  proof (cases res)
    case (Inl e)
    with "4.prems" inv show ?thesis by auto
  next
    case (Inr results)
    with "4.prems" inv have run: "gd_advance n sv self pfx (InFor (fp_files results) (fp_nextPageToken results)) s1
        = (Yielded name, self', gen', s')"
      by simp
    have fl: "files_list sv (list_query self) list_fields tok (Some 1000) (snd s) = (Inr results, snd s1)"
      using invoke_split[OF inv] Inr by simp
    from "4.IH"[OF inv[symmetric] Inr run] obtain entry where e:
      "df_name entry = name" "matches_prefix pfx name"
      "entry \<in> set (pos_pending (InFor (fp_files results) (fp_nextPageToken results))) \<or> listed sv entry"
      "self' = self\<lparr>gd_url_cache := Some ((cache_of self)(name \<mapsto> link_or_empty entry))\<rparr>"
      by blast
    from e(3) have "listed sv entry" using listedI[OF fl] by auto
    then have "entry \<in> set (pos_pending (AtFetch tok)) \<or> listed sv entry" by simp
    with e(1,2,4) show ?thesis by blast
  qed
qed

lemma gd_advance_no_yield:
  "gd_advance n sv self pfx pos s = (r, self', gen', s') \<Longrightarrow> \<forall>name. r \<noteq> Yielded name \<Longrightarrow> self' = self"
proof (induction n sv self pfx pos s rule: gd_advance.induct)
  case (1 n sv self pfx f fs tok s)
  show ?case
  proof (cases "matches_prefix pfx (df_name f)")
    case True
    with "1.prems" show ?thesis by (auto simp: Let_def)
  next
    case False
    with "1.prems" have "gd_advance n sv self pfx (InFor fs tok) s = (r, self', gen', s')"
      by (simp add: Let_def)
    from "1.IH"[OF refl False this "1.prems"(2)] show ?thesis .
  qed
next
  case (2 n sv self pfx tok s)
  show ?case
  proof (cases "truthy_str tok")
    case False
    with "2.prems" show ?thesis by auto
  next
    case True
    with "2.prems" have "gd_advance n sv self pfx (AtFetch tok) s = (r, self', gen', s')"
      by simp
    from "2.IH"[OF _ this "2.prems"(2)] True show ?thesis
      by simp
  qed
next
  case (3 sv self pfx tok s)
  then show ?case by auto
next
  case (4 n sv self pfx tok s)
  obtain res s1 where inv: "invoke (FilesList (list_query self) list_fields tok (Some 1000))
             (files_list sv (list_query self) list_fields tok (Some 1000)) s = (res, s1)"
    by (cases "invoke (FilesList (list_query self) list_fields tok (Some 1000))
             (files_list sv (list_query self) list_fields tok (Some 1000)) s") auto
  show ?case
  proof (cases res)
    case (Inl e)
    with "4.prems" inv show ?thesis by auto
  next
    case (Inr results)
    with "4.prems" inv have run: "gd_advance n sv self pfx (InFor (fp_files results) (fp_nextPageToken results)) s1
        = (r, self', gen', s')"
      by simp
    from "4.IH"[OF inv[symmetric] Inr run "4.prems"(2)] show ?thesis .
  qed
qed

lemma gd_advance_calls:
  "gd_advance n sv self pfx pos s = (r, self', gen', s') \<Longrightarrow>
     \<exists>cs. fst s' = fst s @ cs \<and> list_all (is_list_call self) cs"
proof (induction n sv self pfx pos s rule: gd_advance.induct)
  case (1 n sv self pfx f fs tok s)
  show ?case
  proof (cases "matches_prefix pfx (df_name f)")
    case True
    with "1.prems" have "s' = s" by (auto simp: Let_def)
    then show ?thesis by simp
  next
    case False
    with "1.prems" have "gd_advance n sv self pfx (InFor fs tok) s = (r, self', gen', s')"
      by (simp add: Let_def)
    from "1.IH"[OF refl False this] show ?thesis .
  qed
next
  case (2 n sv self pfx tok s)
  show ?case
  proof (cases "truthy_str tok")
    case False
    with "2.prems" have "s' = s" by auto
    then show ?thesis by simp
  next
    case True
    with "2.prems" have "gd_advance n sv self pfx (AtFetch tok) s = (r, self', gen', s')"
      by simp
    from "2.IH"[OF _ this] True show ?thesis
      by simp
  qed
next
  case (3 sv self pfx tok s)
  then have "s' = s" by auto
  then show ?case by simp
next
  case (4 n sv self pfx tok s)
  let ?ev = "FilesList (list_query self) list_fields tok (Some 1000)"
  obtain res s1 where inv: "invoke ?ev (files_list sv (list_query self) list_fields tok (Some 1000)) s = (res, s1)"
    by (cases "invoke ?ev (files_list sv (list_query self) list_fields tok (Some 1000)) s") auto
  have l1: "fst s1 = fst s @ [?ev]" using invoke_split[OF inv] by simp
  have ev: "is_list_call self ?ev" by simp
  show ?case
  proof (cases res)
    case (Inl e)
    with "4.prems" inv have "s' = s1" by auto
    then show ?thesis using l1 ev by simp
  next
    case (Inr results)
    with "4.prems" inv have run: "gd_advance n sv self pfx (InFor (fp_files results) (fp_nextPageToken results)) s1
        = (r, self', gen', s')"
      by simp
    from "4.IH"[OF inv[symmetric] Inr run] obtain cs where "fst s' = fst s1 @ cs" "list_all (is_list_call self) cs"
      by blast
    then have "fst s' = fst s @ (?ev # cs) \<and> list_all (is_list_call self) (?ev # cs)"
      using l1 ev by simp
    then show ?thesis by blast
  qed
qed


lemma list_query_cache [simp]: "list_query (self\<lparr>gd_url_cache := c\<rparr>) = list_query self"
  by (simp add: list_query_def)

lemma is_list_call_cache: "is_list_call (self\<lparr>gd_url_cache := c\<rparr>) = is_list_call self"
proof
  fix x show "is_list_call (self\<lparr>gd_url_cache := c\<rparr>) x = is_list_call self x"
    by (cases x) simp_all
qed

lemma gd_list_next_yield:
  assumes "gd_list_next n sv self gen s = (Yielded name, self', gen', s')"
  shows "\<exists>entry. df_name entry = name \<and> (entry \<in> set (gen_pending gen) \<or> listed sv entry) \<and>
           cache_of self' = (cache_of self)(name \<mapsto> link_or_empty entry)"
proof (cases gen)
  case (GenStart pfx)
  with assms have "gd_advance n sv (self\<lparr>gd_url_cache := Some (cache_of self)\<rparr>) pfx (AtFetch None) s
      = (Yielded name, self', gen', s')"
    by (simp add: gd_list_next_def)
  from gd_advance_yield[OF this] obtain entry where e: "df_name entry = name"
      "entry \<in> set (pos_pending (AtFetch None)) \<or> listed sv entry"
      "self' = self\<lparr>gd_url_cache := Some (cache_of self)\<rparr>
          \<lparr>gd_url_cache := Some ((cache_of (self\<lparr>gd_url_cache := Some (cache_of self)\<rparr>))(name \<mapsto> link_or_empty entry))\<rparr>"
    by blast
  from e(3) have "cache_of self' = (cache_of self)(name \<mapsto> link_or_empty entry)"
    by (simp add: cache_of_def)
  with e(1,2) show ?thesis by auto
next
  case (GenAt pfx fs tok)
  with assms have "gd_advance n sv self pfx (InFor fs tok) s = (Yielded name, self', gen', s')"
    by (simp add: gd_list_next_def)
  from gd_advance_yield[OF this] obtain entry where e: "df_name entry = name"
      "entry \<in> set (pos_pending (InFor fs tok)) \<or> listed sv entry"
      "self' = self\<lparr>gd_url_cache := Some ((cache_of self)(name \<mapsto> link_or_empty entry))\<rparr>"
    by blast
  from e(3) have "cache_of self' = (cache_of self)(name \<mapsto> link_or_empty entry)"
    by (simp add: cache_of_def)
  with e(1,2) GenAt show ?thesis by auto
next
  case GenDone
  with assms show ?thesis by (simp add: gd_list_next_def)
qed

lemma gd_list_next_no_yield:
  assumes "gd_list_next n sv self gen s = (r, self', gen', s')" and "\<forall>name. r \<noteq> Yielded name"
  shows "cache_of self' = cache_of self"
proof (cases gen)
  case (GenStart pfx)
  with assms have "gd_advance n sv (self\<lparr>gd_url_cache := Some (cache_of self)\<rparr>) pfx (AtFetch None) s
      = (r, self', gen', s')"
    by (simp add: gd_list_next_def)
  from gd_advance_no_yield[OF this assms(2)] show ?thesis by (simp add: cache_of_def)
next
  case (GenAt pfx fs tok)
  with assms have "gd_advance n sv self pfx (InFor fs tok) s = (r, self', gen', s')"
    by (simp add: gd_list_next_def)
  from gd_advance_no_yield[OF this assms(2)] show ?thesis by simp
next
  case GenDone
  with assms show ?thesis by (simp add: gd_list_next_def)
qed

lemma gd_list_next_calls:
  assumes "gd_list_next n sv self gen s = (r, self', gen', s')"
  shows "\<exists>cs. fst s' = fst s @ cs \<and> list_all (is_list_call self) cs"
proof (cases gen)
  case (GenStart pfx)
  with assms have "gd_advance n sv (self\<lparr>gd_url_cache := Some (cache_of self)\<rparr>) pfx (AtFetch None) s
      = (r, self', gen', s')"
    by (simp add: gd_list_next_def)
  from gd_advance_calls[OF this] show ?thesis unfolding is_list_call_cache .
next
  case (GenAt pfx fs tok)
  with assms have "gd_advance n sv self pfx (InFor fs tok) s = (r, self', gen', s')"
    by (simp add: gd_list_next_def)
  from gd_advance_calls[OF this] show ?thesis .
next
  case GenDone
  with assms have "s' = s" by (simp add: gd_list_next_def)
  then show ?thesis by simp
qed

lemma Google_get_file_url_cached:
  "cache_of self name = Some u \<Longrightarrow> Google_get_file_url sv self name t = (Inr u, t)"
  by (simp add: Google_get_file_url_def)

lemma Google_file_exists_cached:
  "cache_of self name = Some u \<Longrightarrow> Google_file_exists sv self name t = (Inr True, t)"
  by (simp add: Google_file_exists_def)

lemma gd_list_take_cache:
  "gd_list_take n k sv self gen s = ((names, ending), self', s') \<Longrightarrow>
     dom (cache_of self') = dom (cache_of self) \<union> set names"
proof (induction k arbitrary: self gen s names ending self' s')
  case 0
  then show ?case by simp
next
  case (Suc k)
  obtain r self1 gen1 s1 where step: "gd_list_next n sv self gen s = (r, self1, gen1, s1)"
    using prod_cases4 by blast
  show ?case
  proof (cases r)
    case (Yielded name)
    obtain names1 e1 self2 s2 where rest: "gd_list_take n k sv self1 gen1 s1 = ((names1, e1), self2, s2)"
      using prod_cases4 by (metis surj_pair)
    from Suc.prems have eq: "names = name # names1 \<and> self' = self2"
      by (simp add: step Yielded rest)
    from gd_list_next_yield[OF step[unfolded Yielded]] have "dom (cache_of self1) = insert name (dom (cache_of self))"
      by auto
    with Suc.IH[OF rest] eq show ?thesis by auto
  next
    case Exhausted
    then have ny: "\<forall>name. r \<noteq> Yielded name" by simp
    from Suc.prems have eq: "names = [] \<and> self' = self1"
      by (simp add: step Exhausted)
    from gd_list_next_no_yield[OF step ny] eq show ?thesis by simp
  next
    case (Raised e)
    then have ny: "\<forall>name. r \<noteq> Yielded name" by simp
    from Suc.prems have eq: "names = [] \<and> self' = self1"
      by (simp add: step Raised)
    from gd_list_next_no_yield[OF step ny] eq show ?thesis by simp
  next
    case OutOfFuel
    then have ny: "\<forall>name. r \<noteq> Yielded name" by simp
    from Suc.prems have eq: "names = [] \<and> self' = self1"
      by (simp add: step OutOfFuel)
    from gd_list_next_no_yield[OF step ny] eq show ?thesis by simp
  qed
qed

lemma mem_page:
  "files_list mem_drive (list_query mem_gd) list_fields tok ps w
     = (Inr \<lparr>fp_files = mw_files w, fp_nextPageToken = None\<rparr>, w)"
  by (simp add: mem_drive_def list_query_def mem_gd_def quote_def)

lemma mem_files0:
  "mw_files mem_world0 = [\<lparr>df_id = ''id-old'', df_name = ''old.jpg'', df_webViewLink = None\<rparr>,
                 \<lparr>df_id = ''id-a'', df_name = ''a.jpg'',
                  df_webViewLink = Some ''https://drive.google.com/file/d/id-a/view''\<rparr>]"
  by (simp add: mem_world0_def)

lemma mem_cache0: "cache_of mem_gd = Map.empty"
  by (simp add: cache_of_def mem_gd_def)

lemma mem_step1:
  "gd_list_next (Suc 0) mem_drive mem_gd (GenStart None) ([], mem_world0)
     = (Yielded ''old.jpg'',
        mem_gd\<lparr>gd_url_cache := Some [''old.jpg'' \<mapsto> []]\<rparr>,
        GenAt None [\<lparr>df_id = ''id-a'', df_name = ''a.jpg'',
                     df_webViewLink = Some ''https://drive.google.com/file/d/id-a/view''\<rparr>] None,
        ([FilesList (list_query mem_gd) list_fields None (Some 1000)], mem_world0))"
  by (simp add: gd_list_next_def invoke_pair mem_page mem_files0 mem_cache0 Let_def link_or_empty_def)

lemma mem_step2:
  "gd_list_next (Suc 0) mem_drive (mem_gd\<lparr>gd_url_cache := Some [''old.jpg'' \<mapsto> []]\<rparr>)
      (GenAt None [\<lparr>df_id = ''id-a'', df_name = ''a.jpg'',
                     df_webViewLink = Some ''https://drive.google.com/file/d/id-a/view''\<rparr>] None)
      ([FilesList (list_query mem_gd) list_fields None (Some 1000)], mem_world0)
     = (Yielded ''a.jpg'',
        mem_gd\<lparr>gd_url_cache := Some [''old.jpg'' \<mapsto> [], ''a.jpg'' \<mapsto> ''https://drive.google.com/file/d/id-a/view'']\<rparr>,
        GenAt None [] None,
        ([FilesList (list_query mem_gd) list_fields None (Some 1000)], mem_world0))"
  by (simp add: gd_list_next_def Let_def link_or_empty_def)

lemma mem_take2:
  "gd_list_take (Suc 0) (Suc (Suc 0)) mem_drive mem_gd (GenStart None) ([], mem_world0)
     = (([''old.jpg'', ''a.jpg''], None),
        mem_gd\<lparr>gd_url_cache := Some [''old.jpg'' \<mapsto> [], ''a.jpg'' \<mapsto> ''https://drive.google.com/file/d/id-a/view'']\<rparr>,
        ([FilesList (list_query mem_gd) list_fields None (Some 1000)], mem_world0))"
  by (simp add: mem_step1 mem_step2)

text \<open>
  C4. Whenever a \<open>next()\<close> of \<open>list_files\<close> yields a name, the cache afterwards
  holds for that name the link (or the empty string) of an entry with that name that the
  listing returned, and is otherwise unchanged; a \<open>next()\<close> that yields nothing leaves
  the entries of the cache as they were. The run issues page requests only, no request
  for a link. After a caller has taken any number of names, the keys of the cache are
  the keys it had before and the names yielded, and \<open>get_file_url\<close> for each yielded
  name returns from the cache: the log and the world are as before, no call is issued.
\<close>

theorem list_files_fills_url_cache:
  assumes step: "gd_list_next n sv self gen s = (r, self1, gen1, s1)"
      and run: "gd_list_take n k sv self gen s = ((names, ending), self2, s2)"
  shows "(\<forall>name. r = Yielded name \<longrightarrow>
            (\<exists>entry. df_name entry = name \<and>
               (entry \<in> set (gen_pending gen) \<or>
                (\<exists>q fl tok ps w page w'. files_list sv q fl tok ps w = (Inr page, w') \<and>
                    entry \<in> set (fp_files page))) \<and>
               cache_of self1 = (cache_of self)(name \<mapsto> link_or_empty entry)))
     \<and> ((\<forall>name. r \<noteq> Yielded name) \<longrightarrow> cache_of self1 = cache_of self)
     \<and> (\<exists>cs. fst s1 = fst s @ cs \<and> list_all (is_list_call self) cs)
     \<and> dom (cache_of self2) = dom (cache_of self) \<union> set names
     \<and> (\<forall>name \<in> set names. \<forall>t. \<exists>u. Google_get_file_url sv self2 name t = (Inr u, t))"
proof -
  have a: "\<forall>name. r = Yielded name \<longrightarrow>
            (\<exists>entry. df_name entry = name \<and>
               (entry \<in> set (gen_pending gen) \<or>
                (\<exists>q fl tok ps w page w'. files_list sv q fl tok ps w = (Inr page, w') \<and>
                    entry \<in> set (fp_files page))) \<and>
               cache_of self1 = (cache_of self)(name \<mapsto> link_or_empty entry))"
    using gd_list_next_yield[of n sv self gen s _ self1 gen1 s1] step
    unfolding listed_def by blast
  have b: "(\<forall>name. r \<noteq> Yielded name) \<longrightarrow> cache_of self1 = cache_of self"
    using gd_list_next_no_yield[OF step] by blast
  have c: "\<exists>cs. fst s1 = fst s @ cs \<and> list_all (is_list_call self) cs"
    by (rule gd_list_next_calls[OF step])
  have d: "dom (cache_of self2) = dom (cache_of self) \<union> set names"
    by (rule gd_list_take_cache[OF run])
  have e: "\<forall>name \<in> set names. \<forall>t. \<exists>u. Google_get_file_url sv self2 name t = (Inr u, t)"
  proof (intro ballI allI)
    fix name t assume "name \<in> set names"
    then have "name \<in> dom (cache_of self2)" using d by simp
    then obtain u where "cache_of self2 name = Some u" by blast
    then show "\<exists>u. Google_get_file_url sv self2 name t = (Inr u, t)"
      using Google_get_file_url_cached by blast
  qed
  show ?thesis using a b c d e by blast
qed

theorem list_files_fills_url_cache_witness:
  "fst (gd_list_take (Suc 0) (Suc (Suc 0)) mem_drive mem_gd (GenStart None) ([], mem_world0))
     = ([''old.jpg'', ''a.jpg''], None)
   \<and> dom (cache_of (mem_gd\<lparr>gd_url_cache :=
        Some [''old.jpg'' \<mapsto> [], ''a.jpg'' \<mapsto> ''https://drive.google.com/file/d/id-a/view'']\<rparr>))
       = {''old.jpg'', ''a.jpg''}
   \<and> Google_get_file_url mem_drive
        (mem_gd\<lparr>gd_url_cache :=
           Some [''old.jpg'' \<mapsto> [], ''a.jpg'' \<mapsto> ''https://drive.google.com/file/d/id-a/view'']\<rparr>)
        ''a.jpg'' ([], mem_world0)
       = (Inr ''https://drive.google.com/file/d/id-a/view'', ([], mem_world0))"
  using list_files_fills_url_cache [OF mem_step1 mem_take2]
  unfolding mem_take2 by (simp add: mem_cache0 Google_get_file_url_def insert_commute)


text \<open>
  C10. When the first entry of the first page passes the prefix filter and carries no
  \<open>webViewLink\<close>, the first \<open>next()\<close> of \<open>list_files\<close> yields its name and caches
  the empty string for it; \<open>get_file_url\<close> then returns the empty string for that
  name and \<open>file_exists\<close> returns \<open>True\<close>, both without a call. In general a
  cached name is answered with the cached value, whatever it is, and exists.
\<close>

theorem cached_empty_url_is_returned:
  assumes "files_list sv (list_query self) list_fields None (Some 1000) w = (Inr page, w')"
      and "fp_files page = entry # rest"
      and "matches_prefix pfx (df_name entry)"
      and "df_webViewLink entry = None"
      and "gd_list_next (Suc n) sv self (GenStart pfx) (log, w) = (r, self', gen', s')"
  shows "r = Yielded (df_name entry)
     \<and> cache_of self' (df_name entry) = Some []
     \<and> Google_get_file_url sv self' (df_name entry) t = (Inr [], t)
     \<and> Google_file_exists sv self' (df_name entry) t = (Inr True, t)
     \<and> (\<forall>self0 name u. cache_of self0 name = Some u \<longrightarrow>
            Google_get_file_url sv self0 name t = (Inr u, t) \<and>
            Google_file_exists sv self0 name t = (Inr True, t))"
proof -
  have "gd_list_next (Suc n) sv self (GenStart pfx) (log, w)
      = (Yielded (df_name entry),
         self\<lparr>gd_url_cache := Some ((cache_of self)(df_name entry \<mapsto> []))\<rparr>,
         GenAt pfx rest (fp_nextPageToken page),
         (log @ [FilesList (list_query self) list_fields None (Some 1000)], w'))"
    using assms(1-4) by (simp add: gd_list_next_def invoke_pair Let_def link_or_empty_def)
  with assms(5) have r: "r = Yielded (df_name entry)"
      and s: "self' = self\<lparr>gd_url_cache := Some ((cache_of self)(df_name entry \<mapsto> []))\<rparr>"
    by simp_all
  from s have c: "cache_of self' (df_name entry) = Some []"
    by simp
  show ?thesis
    using r c Google_get_file_url_cached Google_file_exists_cached by blast
qed

theorem cached_empty_url_is_returned_witness:
  "fst (gd_list_next (Suc 0) mem_drive mem_gd (GenStart None) ([], mem_world0)) = Yielded ''old.jpg''
   \<and> Google_get_file_url mem_drive (mem_gd\<lparr>gd_url_cache := Some [''old.jpg'' \<mapsto> []]\<rparr>) ''old.jpg''
        ([], mem_world0) = (Inr [], ([], mem_world0))
   \<and> Google_file_exists mem_drive (mem_gd\<lparr>gd_url_cache := Some [''old.jpg'' \<mapsto> []]\<rparr>) ''old.jpg''
        ([], mem_world0) = (Inr True, ([], mem_world0))"
proof -
  have p: "fp_files \<lparr>fp_files = mw_files mem_world0, fp_nextPageToken = None\<rparr>
      = \<lparr>df_id = ''id-old'', df_name = ''old.jpg'', df_webViewLink = None\<rparr>
        # [\<lparr>df_id = ''id-a'', df_name = ''a.jpg'',
             df_webViewLink = Some ''https://drive.google.com/file/d/id-a/view''\<rparr>]"
    by (simp add: mem_files0)
  from cached_empty_url_is_returned [OF mem_page p _ _ mem_step1, of "([], mem_world0)"]
  show ?thesis
    by (simp add: mem_step1)
qed

subsection \<open>GoogleDriveDriver: sharing the folder\<close>

lemma email_nonempty: "email_regex_match e \<Longrightarrow> e \<noteq> []"
  by (auto simp: email_regex_match_def)

lemma mem_valid: "email_regex_match ''ann@example.com''" "\<not> email_regex_match ''not an address''"
   "email_regex_match ''bob@example.com''"
  by (simp_all add: email_regex_match_def email_local_char_def email_domain_char_def email_tail_char_def is_alnum_def)

lemma gd_get_share_with_list:
  "gc_share_with gc = ShareList es \<Longrightarrow> gd_get_share_with gc = Inr (filter email_regex_match es)"
  by (simp add: gd_get_share_with_def)

lemma gd_get_share_with_str:
  "gc_share_with gc = ShareStr e \<Longrightarrow> gd_get_share_with gc = Inr (if email_regex_match e then [e] else [])"
  by (simp add: gd_get_share_with_def)

lemma gd_share_with_held:
  assumes "permissions_list sv fid permission_fields w = (Inr perms, w1)"
      and  "holds_permission perms email"
  shows "gd_share_with sv fid email (log, w) = (Inr (), (log @ [PermissionsList fid permission_fields], w1))"
  using assms
  by (simp add: gd_share_with_def gd_has_already_permission_def run_simps)

lemma gd_share_with_grant:
  assumes "permissions_list sv fid permission_fields w = (Inr perms, w1)"
      and "\<not> holds_permission perms email"
      and "permissions_create sv fid ''user'' ''writer'' email w1 = (Inr (), w2)"
  shows "gd_share_with sv fid email (log, w)
           = (Inr (), (log @ [PermissionsList fid permission_fields,
                              PermissionsCreate fid ''user'' ''writer'' email], w2))"
  using assms
  by (simp add: gd_share_with_def gd_has_already_permission_def run_simps)

lemma gd_share_with_grant_fails:
  assumes "permissions_list sv fid permission_fields w = (Inr perms, w1)"
      and "\<not> holds_permission perms email"
      and "permissions_create sv fid ''user'' ''writer'' email w1 = (Inl e, w2)"
  shows "gd_share_with sv fid email (log, w)
           = (Inl (DriverError (''Google Drive sharing folder error: '' @ exn_str e)),
              (log @ [PermissionsList fid permission_fields,
                      PermissionsCreate fid ''user'' ''writer'' email], w2))"
  using assms
  by (simp add: gd_share_with_def gd_has_already_permission_def run_simps wrap_exn_def any_Exception_def)

lemma gd_share_with_list_fails:
  assumes "permissions_list sv fid permission_fields w = (Inl e, w1)"
  shows "gd_share_with sv fid email (log, w)
           = (Inl (DriverError (''Google Drive has permission error: '' @ exn_str e)),
              (log @ [PermissionsList fid permission_fields], w1))"
  using assms
  by (simp add: gd_share_with_def gd_has_already_permission_def run_simps wrap_exn_def any_Exception_def)

lemma share_two_first_held:
  assumes v: "email_regex_match e1" "\<not> email_regex_match bad" "email_regex_match e2"
      and l1: "permissions_list sv fid permission_fields w = (Inr ps1, w1)" and h1: "holds_permission ps1 e1"
      and l2: "permissions_list sv fid permission_fields w1 = (Inr ps2, w2)" and h2: "\<not> holds_permission ps2 e2"
      and g: "permissions_create sv fid ''user'' ''writer'' e2 w2 = (Inr (), w3)"
  shows "gd_share_all sv fid (filter email_regex_match [e1, bad, e2]) (log, w)
           = (Inr (), (log @ [PermissionsList fid permission_fields, PermissionsList fid permission_fields,
                              PermissionsCreate fid ''user'' ''writer'' e2], w3))"
proof -
  have ne: "e1 \<noteq> []" "e2 \<noteq> []" using v email_nonempty by auto
  have f: "filter email_regex_match [e1, bad, e2] = [e1, e2]" using v by simp
  show ?thesis
    unfolding f
    by (simp add: ne gd_share_with_held[OF l1 h1] gd_share_with_grant[OF l2 h2 g] and_then_Inr)
qed

lemma share_two_second_held:
  assumes v: "email_regex_match e1" "\<not> email_regex_match bad" "email_regex_match e2"
      and l1: "permissions_list sv fid permission_fields w = (Inr ps1, w1)" and h1: "\<not> holds_permission ps1 e1"
      and g: "permissions_create sv fid ''user'' ''writer'' e1 w1 = (Inr (), w2)"
      and l2: "permissions_list sv fid permission_fields w2 = (Inr ps2, w3)" and h2: "holds_permission ps2 e2"
  shows "gd_share_all sv fid (filter email_regex_match [e1, bad, e2]) (log, w)
           = (Inr (), (log @ [PermissionsList fid permission_fields,
                              PermissionsCreate fid ''user'' ''writer'' e1,
                              PermissionsList fid permission_fields], w3))"
proof -
  have ne: "e1 \<noteq> []" "e2 \<noteq> []" using v email_nonempty by auto
  have f: "filter email_regex_match [e1, bad, e2] = [e1, e2]" using v by simp
  show ?thesis
    unfolding f
    by (simp add: ne gd_share_with_grant[OF l1 h1 g] gd_share_with_held[OF l2 h2] and_then_Inr)
qed

lemma init_after_folder:
  assumes "gd_resolve_folder sv cfg s = (Inr fid, s1)"
      and "gc_share_with (cfg_google_drive cfg) = ShareList es"
      and "gd_share_all sv fid (filter email_regex_match es) s1 = (Inr (), s2)"
  shows "GoogleDriveDriver_init sv cfg s
           = (Inr \<lparr>gd_folder = gc_folder (cfg_google_drive cfg), gd_folder_id = fid, gd_url_cache = None\<rparr>, s2)"
  using assms
  by (simp add: GoogleDriveDriver_init_def Let_def run_simps gd_get_share_with_list)


lemma and_then_no_grant:
  assumes "filter is_grant_call (fst (snd r)) = G"
      and "\<And>v s'. filter is_grant_call (fst s') = G \<Longrightarrow> filter is_grant_call (fst (snd (f v s'))) = G"
  shows "filter is_grant_call (fst (snd (and_then r f))) = G"
proof (cases r)
  fix a s' assume r: "r = (a, s')"
  show ?thesis
  proof (cases a)
    case (Inl e)
    then show ?thesis using assms(1) r by (simp add: and_then_def)
  next
    case (Inr v)
    then show ?thesis using assms r by (simp add: and_then_def)
  qed
qed

lemma invoke_no_grant:
  "\<not> is_grant_call ev \<Longrightarrow> filter is_grant_call (fst (snd (invoke ev f s))) = filter is_grant_call (fst s)"
  by (cases s) (simp add: invoke_pair)

lemma gd_folder_exists_no_grant:
  "filter is_grant_call (fst (snd (gd_folder_exists sv folder s))) = filter is_grant_call (fst s)"
  by (cases s) (auto simp: gd_folder_exists_def Let_def invoke_pair and_then_def try_except_def
        split: sum.splits prod.splits list.splits)

lemma gd_create_folder_no_grant:
  "filter is_grant_call (fst (snd (gd_create_folder sv folder s))) = filter is_grant_call (fst s)"
  by (cases s) (auto simp: gd_create_folder_def invoke_pair try_except_def split: sum.splits prod.splits)

lemma gd_resolve_folder_no_grant:
  "filter is_grant_call (fst (snd (gd_resolve_folder sv cfg s))) = filter is_grant_call (fst s)"
  unfolding gd_resolve_folder_def Let_def
  apply (rule and_then_no_grant)
   apply (simp add: invoke_no_grant)
  apply (rule and_then_no_grant)
   apply (simp add: invoke_no_grant)
  apply (rule and_then_no_grant)
   apply (simp add: gd_folder_exists_no_grant)
  apply (simp add: gd_create_folder_no_grant)
  done


lemma init_first_held:
  assumes R: "gd_resolve_folder sv cfg s = (Inr fid, (log, w))"
      and C: "gc_share_with (cfg_google_drive cfg) = ShareList [e1, bad, e2]"
      and v: "email_regex_match e1" "\<not> email_regex_match bad" "email_regex_match e2"
      and l1: "permissions_list sv fid permission_fields w = (Inr ps1, w1)" and h1: "holds_permission ps1 e1"
      and l2: "permissions_list sv fid permission_fields w1 = (Inr ps2, w2)" and h2: "\<not> holds_permission ps2 e2"
      and g: "permissions_create sv fid ''user'' ''writer'' e2 w2 = (Inr (), w3)"
  shows "GoogleDriveDriver_init sv cfg s
           = (Inr \<lparr>gd_folder = gc_folder (cfg_google_drive cfg), gd_folder_id = fid, gd_url_cache = None\<rparr>,
              (log @ [PermissionsList fid permission_fields, PermissionsList fid permission_fields,
                      PermissionsCreate fid ''user'' ''writer'' e2], w3))
     \<and> filter is_grant_call (fst (snd (GoogleDriveDriver_init sv cfg s)))
           = filter is_grant_call (fst s) @ [PermissionsCreate fid ''user'' ''writer'' e2]"
proof -
  have i: "GoogleDriveDriver_init sv cfg s
           = (Inr \<lparr>gd_folder = gc_folder (cfg_google_drive cfg), gd_folder_id = fid, gd_url_cache = None\<rparr>,
              (log @ [PermissionsList fid permission_fields, PermissionsList fid permission_fields,
                      PermissionsCreate fid ''user'' ''writer'' e2], w3))"
    by (rule init_after_folder[OF R C share_two_first_held[OF v l1 h1 l2 h2 g]])
  have "filter is_grant_call log = filter is_grant_call (fst s)"
    using gd_resolve_folder_no_grant[of sv cfg s] R by simp
  then show ?thesis unfolding i by simp
qed

lemma init_second_held:
  assumes R: "gd_resolve_folder sv cfg s = (Inr fid, (log, w))"
      and C: "gc_share_with (cfg_google_drive cfg) = ShareList [e1, bad, e2]"
      and v: "email_regex_match e1" "\<not> email_regex_match bad" "email_regex_match e2"
      and l1: "permissions_list sv fid permission_fields w = (Inr ps1, w1)" and h1: "\<not> holds_permission ps1 e1"
      and g: "permissions_create sv fid ''user'' ''writer'' e1 w1 = (Inr (), w2)"
      and l2: "permissions_list sv fid permission_fields w2 = (Inr ps2, w3)" and h2: "holds_permission ps2 e2"
  shows "GoogleDriveDriver_init sv cfg s
           = (Inr \<lparr>gd_folder = gc_folder (cfg_google_drive cfg), gd_folder_id = fid, gd_url_cache = None\<rparr>,
              (log @ [PermissionsList fid permission_fields,
                      PermissionsCreate fid ''user'' ''writer'' e1,
                      PermissionsList fid permission_fields], w3))
     \<and> filter is_grant_call (fst (snd (GoogleDriveDriver_init sv cfg s)))
           = filter is_grant_call (fst s) @ [PermissionsCreate fid ''user'' ''writer'' e1]"
proof -
  have i: "GoogleDriveDriver_init sv cfg s
           = (Inr \<lparr>gd_folder = gc_folder (cfg_google_drive cfg), gd_folder_id = fid, gd_url_cache = None\<rparr>,
              (log @ [PermissionsList fid permission_fields,
                      PermissionsCreate fid ''user'' ''writer'' e1,
                      PermissionsList fid permission_fields], w3))"
    by (rule init_after_folder[OF R C share_two_second_held[OF v l1 h1 g l2 h2]])
  have "filter is_grant_call log = filter is_grant_call (fst s)"
    using gd_resolve_folder_no_grant[of sv cfg s] R by simp
  then show ?thesis unfolding i by simp
qed

text \<open>
  C6. \<open>_get_share_with\<close> keeps exactly the configured addresses that pass the syntax
  check and raises nothing for the others. \<open>_share_with\<close> lists the permissions of the
  folder and issues the grant call only when the listing does not hold the address
  (compared without case). For a constructor whose folder is resolved and whose
  configuration holds two valid addresses and one that fails the check: when the
  listing holds one of the two valid addresses and not the other, the constructor
  issues exactly one grant call, for the address that had no permission, and no call at
  all for the address that fails the check.
\<close>

theorem share_with_grants_once:
  "(\<forall>es. gc_share_with gc = ShareList es \<longrightarrow> gd_get_share_with gc = Inr (filter email_regex_match es))
   \<and> (\<forall>e. gc_share_with gc = ShareStr e \<longrightarrow>
         gd_get_share_with gc = Inr (if email_regex_match e then [e] else []))
   \<and> (\<forall>perms w1.
         permissions_list sv fid permission_fields w = (Inr perms, w1) \<and> holds_permission perms email \<longrightarrow>
         gd_share_with sv fid email (log, w)
           = (Inr (), (log @ [PermissionsList fid permission_fields], w1)))
   \<and> (\<forall>perms w1 w2.
         permissions_list sv fid permission_fields w = (Inr perms, w1) \<and> \<not> holds_permission perms email \<and>
         permissions_create sv fid ''user'' ''writer'' email w1 = (Inr (), w2) \<longrightarrow>
         gd_share_with sv fid email (log, w)
           = (Inr (), (log @ [PermissionsList fid permission_fields,
                              PermissionsCreate fid ''user'' ''writer'' email], w2)))
   \<and> (\<forall>e1 bad e2 ps1 w1 ps2 w2 w3.
         gd_resolve_folder sv cfg s = (Inr fid, (log, w)) \<and>
         gc_share_with (cfg_google_drive cfg) = ShareList [e1, bad, e2] \<and>
         email_regex_match e1 \<and> \<not> email_regex_match bad \<and> email_regex_match e2 \<and>
         permissions_list sv fid permission_fields w = (Inr ps1, w1) \<and> holds_permission ps1 e1 \<and>
         permissions_list sv fid permission_fields w1 = (Inr ps2, w2) \<and> \<not> holds_permission ps2 e2 \<and>
         permissions_create sv fid ''user'' ''writer'' e2 w2 = (Inr (), w3) \<longrightarrow>
         GoogleDriveDriver_init sv cfg s
           = (Inr \<lparr>gd_folder = gc_folder (cfg_google_drive cfg), gd_folder_id = fid, gd_url_cache = None\<rparr>,
              (log @ [PermissionsList fid permission_fields, PermissionsList fid permission_fields,
                      PermissionsCreate fid ''user'' ''writer'' e2], w3))
         \<and> filter is_grant_call (fst (snd (GoogleDriveDriver_init sv cfg s)))
             = filter is_grant_call (fst s) @ [PermissionsCreate fid ''user'' ''writer'' e2])
   \<and> (\<forall>e1 bad e2 ps1 w1 ps2 w2 w3.
         gd_resolve_folder sv cfg s = (Inr fid, (log, w)) \<and>
         gc_share_with (cfg_google_drive cfg) = ShareList [e1, bad, e2] \<and>
         email_regex_match e1 \<and> \<not> email_regex_match bad \<and> email_regex_match e2 \<and>
         permissions_list sv fid permission_fields w = (Inr ps1, w1) \<and> \<not> holds_permission ps1 e1 \<and>
         permissions_create sv fid ''user'' ''writer'' e1 w1 = (Inr (), w2) \<and>
         permissions_list sv fid permission_fields w2 = (Inr ps2, w3) \<and> holds_permission ps2 e2 \<longrightarrow>
         GoogleDriveDriver_init sv cfg s
           = (Inr \<lparr>gd_folder = gc_folder (cfg_google_drive cfg), gd_folder_id = fid, gd_url_cache = None\<rparr>,
              (log @ [PermissionsList fid permission_fields,
                      PermissionsCreate fid ''user'' ''writer'' e1,
                      PermissionsList fid permission_fields], w3))
         \<and> filter is_grant_call (fst (snd (GoogleDriveDriver_init sv cfg s)))
             = filter is_grant_call (fst s) @ [PermissionsCreate fid ''user'' ''writer'' e1])"
proof (intro conjI allI impI)
  fix es assume "gc_share_with gc = ShareList es"
  then show "gd_get_share_with gc = Inr (filter email_regex_match es)"
    by (rule gd_get_share_with_list)
next
  fix e assume "gc_share_with gc = ShareStr e"
  then show "gd_get_share_with gc = Inr (if email_regex_match e then [e] else [])"
    by (rule gd_get_share_with_str)
next
  fix perms w1
  assume "permissions_list sv fid permission_fields w = (Inr perms, w1) \<and> holds_permission perms email"
  then show "gd_share_with sv fid email (log, w) = (Inr (), (log @ [PermissionsList fid permission_fields], w1))"
    by (elim conjE) (rule gd_share_with_held; assumption)
next
  fix perms w1 w2
  assume "permissions_list sv fid permission_fields w = (Inr perms, w1) \<and> \<not> holds_permission perms email \<and>
         permissions_create sv fid ''user'' ''writer'' email w1 = (Inr (), w2)"
  then show "gd_share_with sv fid email (log, w)
           = (Inr (), (log @ [PermissionsList fid permission_fields,
                              PermissionsCreate fid ''user'' ''writer'' email], w2))"
    by (elim conjE) (rule gd_share_with_grant; assumption)
next
  fix e1 bad e2 ps1 w1 ps2 w2 w3
  assume h: "gd_resolve_folder sv cfg s = (Inr fid, (log, w)) \<and>
         gc_share_with (cfg_google_drive cfg) = ShareList [e1, bad, e2] \<and>
         email_regex_match e1 \<and> \<not> email_regex_match bad \<and> email_regex_match e2 \<and>
         permissions_list sv fid permission_fields w = (Inr ps1, w1) \<and> holds_permission ps1 e1 \<and>
         permissions_list sv fid permission_fields w1 = (Inr ps2, w2) \<and> \<not> holds_permission ps2 e2 \<and>
         permissions_create sv fid ''user'' ''writer'' e2 w2 = (Inr (), w3)"
  note r = init_first_held[of sv cfg s fid log w e1 bad e2 ps1 w1 ps2 w2 w3]
  from h r show "GoogleDriveDriver_init sv cfg s
           = (Inr \<lparr>gd_folder = gc_folder (cfg_google_drive cfg), gd_folder_id = fid, gd_url_cache = None\<rparr>,
              (log @ [PermissionsList fid permission_fields, PermissionsList fid permission_fields,
                      PermissionsCreate fid ''user'' ''writer'' e2], w3))"
    by blast
  from h r show "filter is_grant_call (fst (snd (GoogleDriveDriver_init sv cfg s)))
             = filter is_grant_call (fst s) @ [PermissionsCreate fid ''user'' ''writer'' e2]"
    by blast
next
  fix e1 bad e2 ps1 w1 ps2 w2 w3
  assume h: "gd_resolve_folder sv cfg s = (Inr fid, (log, w)) \<and>
         gc_share_with (cfg_google_drive cfg) = ShareList [e1, bad, e2] \<and>
         email_regex_match e1 \<and> \<not> email_regex_match bad \<and> email_regex_match e2 \<and>
         permissions_list sv fid permission_fields w = (Inr ps1, w1) \<and> \<not> holds_permission ps1 e1 \<and>
         permissions_create sv fid ''user'' ''writer'' e1 w1 = (Inr (), w2) \<and>
         permissions_list sv fid permission_fields w2 = (Inr ps2, w3) \<and> holds_permission ps2 e2"
  note r = init_second_held[of sv cfg s fid log w e1 bad e2 ps1 w1 w2 ps2 w3]
  from h r show "GoogleDriveDriver_init sv cfg s
           = (Inr \<lparr>gd_folder = gc_folder (cfg_google_drive cfg), gd_folder_id = fid, gd_url_cache = None\<rparr>,
              (log @ [PermissionsList fid permission_fields,
                      PermissionsCreate fid ''user'' ''writer'' e1,
                      PermissionsList fid permission_fields], w3))"
    by blast
  from h r show "filter is_grant_call (fst (snd (GoogleDriveDriver_init sv cfg s)))
             = filter is_grant_call (fst s) @ [PermissionsCreate fid ''user'' ''writer'' e1]"
    by blast
qed


lemma mem_resolve:
  "gd_resolve_folder mem_drive (mem_config (PyStr ''google_drive'')) ([], mem_world0)
     = (Inr (Some ''F1''),
        ([CredentialsFromFile ''sa.json'' drive_scopes, BuildService ''drive'' ''v3'',
          FilesList (''name = '' @ quote @ ''media'' @ quote @ '' and mimeType = '' @ quote @ folder_mime @ quote)
            ''files(id, name)'' None None], mem_world0))"
  by (simp add: gd_resolve_folder_def gd_folder_exists_def mem_config_def Let_def run_simps mem_drive_def)

lemma mem_permissions:
  "permissions_list mem_drive (Some ''F1'') permission_fields mem_world0
     = (Inr [\<lparr>perm_emailAddress = Some ''ann@example.com''\<rparr>], mem_world0)"
  "permissions_create mem_drive (Some ''F1'') ''user'' ''writer'' ''bob@example.com'' mem_world0
     = (Inr (), mem_world0\<lparr>mw_grants := [''ann@example.com'', ''bob@example.com'']\<rparr>)"
  by (simp_all add: mem_drive_def mem_world0_def)

lemma mem_holds:
  "holds_permission [\<lparr>perm_emailAddress = Some ''ann@example.com''\<rparr>] ''ann@example.com''"
  "\<not> holds_permission [\<lparr>perm_emailAddress = Some ''ann@example.com''\<rparr>] ''bob@example.com''"
  by (simp_all add: holds_permission_def py_lower_def lower_char_def)

theorem share_with_grants_once_witness:
  "fst (GoogleDriveDriver_init mem_drive (mem_config (PyStr ''google_drive'')) ([], mem_world0)) = Inr mem_gd
   \<and> filter is_grant_call
        (fst (snd (GoogleDriveDriver_init mem_drive (mem_config (PyStr ''google_drive'')) ([], mem_world0))))
       = [PermissionsCreate (Some ''F1'') ''user'' ''writer'' ''bob@example.com'']"
proof -
  have c: "gc_share_with (cfg_google_drive (mem_config (PyStr ''google_drive'')))
             = ShareList [''ann@example.com'', ''not an address'', ''bob@example.com'']"
          "gc_folder (cfg_google_drive (mem_config (PyStr ''google_drive''))) = ''media''"
    by (simp_all add: mem_config_def)
  note t = share_with_grants_once
      [where sv = mem_drive and cfg = "mem_config (PyStr ''google_drive'')" and s = "([], mem_world0)"
         and fid = "Some ''F1''" and w = mem_world0
         and log = "[CredentialsFromFile ''sa.json'' drive_scopes, BuildService ''drive'' ''v3'',
          FilesList (''name = '' @ quote @ ''media'' @ quote @ '' and mimeType = '' @ quote @ folder_mime @ quote)
            ''files(id, name)'' None None]",
       THEN conjunct2, THEN conjunct2, THEN conjunct2, THEN conjunct2, THEN conjunct1, rule_format,
       of "''ann@example.com''" "''not an address''" "''bob@example.com''"
          "[\<lparr>perm_emailAddress = Some ''ann@example.com''\<rparr>]" mem_world0
          "[\<lparr>perm_emailAddress = Some ''ann@example.com''\<rparr>]" mem_world0
          "mem_world0\<lparr>mw_grants := [''ann@example.com'', ''bob@example.com'']\<rparr>"]
  have "GoogleDriveDriver_init mem_drive (mem_config (PyStr ''google_drive'')) ([], mem_world0)
           = (Inr \<lparr>gd_folder = ''media'', gd_folder_id = Some ''F1'', gd_url_cache = None\<rparr>,
              ([CredentialsFromFile ''sa.json'' drive_scopes, BuildService ''drive'' ''v3'',
                FilesList (''name = '' @ quote @ ''media'' @ quote @ '' and mimeType = '' @ quote @ folder_mime @ quote)
                  ''files(id, name)'' None None]
               @ [PermissionsList (Some ''F1'') permission_fields, PermissionsList (Some ''F1'') permission_fields,
                      PermissionsCreate (Some ''F1'') ''user'' ''writer'' ''bob@example.com''],
               mem_world0\<lparr>mw_grants := [''ann@example.com'', ''bob@example.com'']\<rparr>))
         \<and> filter is_grant_call (fst (snd (GoogleDriveDriver_init mem_drive (mem_config (PyStr ''google_drive'')) ([], mem_world0))))
             = filter is_grant_call (fst ([], mem_world0)) @ [PermissionsCreate (Some ''F1'') ''user'' ''writer'' ''bob@example.com'']"
    using t mem_resolve c mem_valid mem_permissions mem_holds by simp
  then show ?thesis
    by (simp add: mem_gd_def)
qed

end
